theory Spec2Isabelle
  imports Main "HOL-Library.AList"
begin

section \<open>The agent executor and its step iterator\<close>

text \<open>
  A shallow embedding of \<^verbatim>\<open>AgentExecutor\<close> and \<^verbatim>\<open>AgentExecutorIterator\<close>
  (the second half of \<^verbatim>\<open>src/libs/langchain-scripts/src/check-tree-shaking.ts\<close>,
  lines 141-838).

  Conventions of the embedding:
  \<^item> A thrown exception is the \<open>Inl\<close> of a sum; \<^verbatim>\<open>await\<close> is sequencing.
  \<^item> A string is the list of its code units, each below U+0100 (the type \<open>char\<close>).
  \<^item> The decision-maker (\<^verbatim>\<open>agent\<close>) and the tools are not part of the source; they
    are records of functions, one field per member the executor reads. Their results
    are functions of their arguments (no hidden state). Tool inputs are strings, and a
    tool returns a string. A tool has one more field, \<open>delay\<close>: the time its call takes
    to settle, which \<^verbatim>\<open>Promise.all\<close> in \<^verbatim>\<open>_call\<close> observes.
  \<^item> Callback managers (\<^verbatim>\<open>runManager\<close>) only observe; they are left out.
  \<^item> \<^verbatim>\<open>maxIterations\<close> is an integer when it is set.
  \<^item> A plain JavaScript object used as a table is the list of its own properties in the
    order of their creation (\<open>AList.update\<close> is property assignment), under the
    prototype \<^verbatim>\<open>Object.prototype\<close> with its standard properties.
  \<^item> A value map such as \<^verbatim>\<open>ChainValues\<close> or \<^verbatim>\<open>returnValues\<close> is a partial map;
    object spread \<^verbatim>\<open>{...a, ...b}\<close> is \<open>a ++ b\<close>.
\<close>

subsection \<open>Data\<close>

record AgentAction =
  tool :: string
  toolInput :: string
  log :: string

text \<open>
  The values an observation takes at run time. A tool gives a string. The other values
  come from the properties of \<^verbatim>\<open>Object.prototype\<close> when the name of an action reaches
  one of them: \<^verbatim>\<open>false\<close>, \<^verbatim>\<open>undefined\<close>, a new empty object, and the \<^verbatim>\<open>String\<close>
  object around a string.
\<close>

datatype observed = Str string | Bool bool | Undefined | EmptyObject | StringObject string

record AgentStep =
  action :: AgentAction
  observation :: observed

datatype jsval = VObs observed | VSteps "AgentStep list"

abbreviation VStr :: "string \<Rightarrow> jsval" where
  "VStr s \<equiv> VObs (Str s)"

type_synonym ChainValues = "string \<rightharpoonup> jsval"

record AgentFinish =
  returnValues :: ChainValues
  finish_log :: string

text \<open>What \<^verbatim>\<open>agent.plan\<close> resolves to: \<^verbatim>\<open>AgentAction[] | AgentAction | AgentFinish\<close>.\<close>

datatype plan_output = Finish AgentFinish | Action AgentAction | Actions "AgentAction list"

text \<open>
  Thrown values. \<open>OutputParserException message sendToLLM observation llmOutput\<close>: the
  executor reads \<^verbatim>\<open>observation\<close> only when \<^verbatim>\<open>sendToLLM\<close> is set.
  \<open>FinalOutputsReached outputs\<close> is the error \<^verbatim>\<open>_callNext\<close> throws, whose message is
  \<^verbatim>\<open>"Final outputs already reached: "\<close> followed by the rendering of the outputs.
  \<open>TypeError\<close> is the error of the language itself: reading \<^verbatim>\<open>.action\<close> of
  \<^verbatim>\<open>undefined\<close>, calling what is not a function.
  \<open>Error message\<close> is every other error, a tool's own failure among them.
\<close>

datatype error =
    OutputParserException string bool string "string option"
  | ToolInputParsingException string
  | FinalOutputsReached ChainValues
  | TypeError
  | Error string

record Tool =
  name :: string
  returnDirect :: bool
  call :: "string \<Rightarrow> error + string"
  delay :: "string \<Rightarrow> nat"

record Agent =
  plan :: "AgentStep list \<Rightarrow> ChainValues \<Rightarrow> error + plan_output"
  agent_returnValues :: "string list"
  agentActionType :: string
  returnStoppedResponse :: "string \<Rightarrow> AgentStep list \<Rightarrow> ChainValues \<Rightarrow> error + AgentFinish"
  prepareForOutput :: "ChainValues \<Rightarrow> AgentStep list \<Rightarrow> ChainValues"

text \<open>\<^verbatim>\<open>boolean | string | ((e) => string)\<close>\<close>

datatype HandleParsingErrors = HBool bool | HString string | HFunction "error \<Rightarrow> string"

text \<open>
  The fields of an \<^verbatim>\<open>AgentExecutor\<close>. \<open>prepOutputs\<close> is the method inherited from
  \<^verbatim>\<open>BaseChain\<close>, which is not part of the source: it is a parameter here, applied to the
  inputs, the outputs and the flag \<^verbatim>\<open>returnOnlyOutputs\<close>.
\<close>

record AgentExecutor =
  agent :: Agent
  tools :: "Tool list"
  returnIntermediateSteps :: bool
  maxIterations :: "int option"
  earlyStoppingMethod :: string
  handleParsingErrors :: HandleParsingErrors
  prepOutputs :: "ChainValues \<Rightarrow> ChainValues \<Rightarrow> bool \<Rightarrow> ChainValues"

text \<open>
  The argument of the constructor: optional fields are options. \<open>in_agent\<close> is the agent
  after the wrapping of a runnable (\<^verbatim>\<open>RunnableAgent\<close>, not part of the source).
\<close>

record AgentExecutorInput =
  in_agent :: Agent
  in_tools :: "Tool list"
  in_returnIntermediateSteps :: "bool option"
  in_maxIterations :: "int option"
  in_earlyStoppingMethod :: "string option"
  in_handleParsingErrors :: "HandleParsingErrors option"
  in_prepOutputs :: "ChainValues \<Rightarrow> ChainValues \<Rightarrow> bool \<Rightarrow> ChainValues"

record AgentExecutorIterator =
  agentExecutor :: AgentExecutor
  inputs :: ChainValues
  finalOutputs :: "ChainValues option"
  intermediateSteps :: "AgentStep list"
  iterations :: nat

subsection \<open>Strings\<close>

text \<open>
  \<^verbatim>\<open>String.prototype.toLowerCase\<close> on code units below U+0100: the letters A-Z, and the
  letters from U+00C0 to U+00DE (the sign U+00D7 is not one), go to the code unit 32
  above; every other code unit stays.
\<close>

definition toLowerCase_char :: "char \<Rightarrow> char" where
  "toLowerCase_char c =
     (case map_of
        (zip (''ABCDEFGHIJKLMNOPQRSTUVWXYZ'' @
              [CHR 0xC0, CHR 0xC1, CHR 0xC2, CHR 0xC3, CHR 0xC4, CHR 0xC5, CHR 0xC6, CHR 0xC7,
               CHR 0xC8, CHR 0xC9, CHR 0xCA, CHR 0xCB, CHR 0xCC, CHR 0xCD, CHR 0xCE, CHR 0xCF,
               CHR 0xD0, CHR 0xD1, CHR 0xD2, CHR 0xD3, CHR 0xD4, CHR 0xD5, CHR 0xD6,
               CHR 0xD8, CHR 0xD9, CHR 0xDA, CHR 0xDB, CHR 0xDC, CHR 0xDD, CHR 0xDE])
             (''abcdefghijklmnopqrstuvwxyz'' @
              [CHR 0xE0, CHR 0xE1, CHR 0xE2, CHR 0xE3, CHR 0xE4, CHR 0xE5, CHR 0xE6, CHR 0xE7,
               CHR 0xE8, CHR 0xE9, CHR 0xEA, CHR 0xEB, CHR 0xEC, CHR 0xED, CHR 0xEE, CHR 0xEF,
               CHR 0xF0, CHR 0xF1, CHR 0xF2, CHR 0xF3, CHR 0xF4, CHR 0xF5, CHR 0xF6,
               CHR 0xF8, CHR 0xF9, CHR 0xFA, CHR 0xFB, CHR 0xFC, CHR 0xFD, CHR 0xFE])) c of
        Some l \<Rightarrow> l
      | None \<Rightarrow> c)"

definition toLowerCase :: "string \<Rightarrow> string" where
  "toLowerCase s = map toLowerCase_char s"

text \<open>\<^verbatim>\<open>Array.prototype.join\<close>\<close>

fun join :: "string \<Rightarrow> string list \<Rightarrow> string" where
  "join sep [] = []"
| "join sep [x] = x"
| "join sep (x # y # ys) = x @ sep @ join sep (y # ys)"

text \<open>\<^verbatim>\<open>String.prototype.startsWith\<close>\<close>

fun startsWith :: "string \<Rightarrow> string \<Rightarrow> bool" where
  "startsWith s [] = True"
| "startsWith [] (p # ps) = False"
| "startsWith (c # cs) (p # ps) = (c = p \<and> startsWith cs ps)"

subsection \<open>Objects used as tables\<close>

text \<open>
  \<^verbatim>\<open>Object.fromEntries(entries)\<close>: a later entry with the key of an earlier one replaces
  its value and keeps its place.
\<close>

definition Object_fromEntries :: "(string \<times> 'a) list \<Rightarrow> (string \<times> 'a) list" where
  "Object_fromEntries entries = fold (\<lambda>(k, v) obj. AList.update k v obj) entries []"

text \<open>
  \<^verbatim>\<open>Object.assign({}, ...sources)\<close> over one-key objects (line 195): each key is
  assigned in turn. An assignment to the key \<^verbatim>\<open>"__proto__"\<close> goes to the setter that
  \<^verbatim>\<open>Object.prototype\<close> holds under that name, so it creates no property. (It makes the
  assigned tool the prototype of the table; the properties the table would then inherit
  from the tool belong to the class of the tool, which is not part of the source, and
  are not in the model.)
\<close>

definition Object_assign :: "(string \<times> 'a) list \<Rightarrow> (string \<times> 'a) list" where
  "Object_assign entries =
     fold (\<lambda>(k, v) obj. if k = ''__proto__'' then obj else AList.update k v obj) entries []"

text \<open>
  An array index: the canonical decimal form of an integer from 0 to \<open>2\<^sup>3\<^sup>2 - 2\<close>.
\<close>

definition digit :: "char \<Rightarrow> nat option" where
  "digit c = map_of (zip ''0123456789'' [0, 1, 2, 3, 4, 5, 6, 7, 8, 9]) c"

definition array_index :: "string \<Rightarrow> nat option" where
  "array_index k =
     (if k = [] then None
      else if list_ex (\<lambda>c. digit c = None) k then None
      else if hd k = CHR ''0'' \<and> tl k \<noteq> [] then None
      else (let n = fold (\<lambda>c n. 10 * n + the (digit c)) k 0
            in if n < 4294967295 then Some n else None))"

text \<open>
  \<^verbatim>\<open>Object.keys\<close>: the own keys that are array indices in ascending numeric order, then
  the other keys in the order of their creation.
\<close>

definition Object_keys :: "(string \<times> 'a) list \<Rightarrow> string list" where
  "Object_keys obj =
     sort_key (\<lambda>k. the (array_index k)) (filter (\<lambda>k. array_index k \<noteq> None) (map fst obj)) @
     filter (\<lambda>k. array_index k = None) (map fst obj)"

text \<open>
  The names of the properties of \<^verbatim>\<open>Object.prototype\<close> (those of ECMAScript with its
  annex B, as Node.js has them).
\<close>

definition Object_prototype_keys :: "string list" where
  "Object_prototype_keys =
     [''constructor'', ''__defineGetter__'', ''__defineSetter__'', ''hasOwnProperty'',
      ''__lookupGetter__'', ''__lookupSetter__'', ''isPrototypeOf'', ''propertyIsEnumerable'',
      ''toString'', ''valueOf'', ''__proto__'', ''toLocaleString'']"

text \<open>
  Reading a property of a table: \<^verbatim>\<open>k in obj\<close> holds for an own key and for an
  inherited one, and \<^verbatim>\<open>obj[k]\<close> is the own value, else the value \<^verbatim>\<open>Object.prototype\<close>
  holds under the name (a truthy value: a function, or for \<^verbatim>\<open>"__proto__"\<close> the object
  \<^verbatim>\<open>Object.prototype\<close> itself), else \<^verbatim>\<open>undefined\<close>.
\<close>

datatype 'a property = Own 'a | Inherited string | Absent

definition property :: "(string \<times> 'a) list \<Rightarrow> string \<Rightarrow> 'a property" where
  "property obj k =
     (case map_of obj k of
        Some v \<Rightarrow> Own v
      | None \<Rightarrow> if k \<in> set Object_prototype_keys then Inherited k else Absent)"

text \<open>
  \<^verbatim>\<open>v.call(input, undefined)\<close> where \<open>v\<close> is the value \<^verbatim>\<open>Object.prototype\<close> holds under
  the name \<open>k\<close> and \<open>input\<close> is a string. For a function \<open>v\<close> this is
  \<^verbatim>\<open>Function.prototype.call\<close>: \<open>v\<close> applied to \<^verbatim>\<open>undefined\<close> with \<open>input\<close> as \<^verbatim>\<open>this\<close>.
  \<^item> \<^verbatim>\<open>toString\<close> gives \<^verbatim>\<open>"[object String]"\<close>; \<^verbatim>\<open>toLocaleString\<close> calls the
    \<^verbatim>\<open>toString\<close> of the string and gives the string; \<^verbatim>\<open>valueOf\<close> gives the
    \<^verbatim>\<open>String\<close> object around it.
  \<^item> \<^verbatim>\<open>constructor\<close> is \<^verbatim>\<open>Object\<close>, which applied to \<^verbatim>\<open>undefined\<close> gives a new empty
    object.
  \<^item> \<^verbatim>\<open>hasOwnProperty\<close>, \<^verbatim>\<open>isPrototypeOf\<close> and \<^verbatim>\<open>propertyIsEnumerable\<close> give
    \<^verbatim>\<open>false\<close>, and \<^verbatim>\<open>__lookupGetter__\<close> and \<^verbatim>\<open>__lookupSetter__\<close> give \<^verbatim>\<open>undefined\<close>: a
    string has no property \<^verbatim>\<open>"undefined"\<close>.
  \<^item> \<^verbatim>\<open>__defineGetter__\<close> and \<^verbatim>\<open>__defineSetter__\<close> throw a \<^verbatim>\<open>TypeError\<close>, their second
    argument not being a function; and so does the call for \<^verbatim>\<open>__proto__\<close>, whose value
    has no \<^verbatim>\<open>call\<close>.
\<close>

definition prototype_call :: "string \<Rightarrow> string \<Rightarrow> error + observed" where
  "prototype_call k input =
     (if k = ''toString'' then Inr (Str ''[object String]'')
      else if k = ''toLocaleString'' then Inr (Str input)
      else if k = ''valueOf'' then Inr (StringObject input)
      else if k = ''constructor'' then Inr EmptyObject
      else if k \<in> set [''hasOwnProperty'', ''isPrototypeOf'', ''propertyIsEnumerable'']
        then Inr (Bool False)
      else if k \<in> set [''__lookupGetter__'', ''__lookupSetter__''] then Inr Undefined
      else Inl TypeError)"

subsection \<open>\<^verbatim>\<open>Promise.all\<close>\<close>

text \<open>
  \<^verbatim>\<open>Promise.all\<close> over promises that are all started: each is given as the time at
  which it settles and its result. When none is rejected the results, in the order of
  the promises; otherwise the error of the promise that is rejected first in time (of
  two rejected at the same time, the one started first).
\<close>

fun rejected :: "(nat \<times> (error + 'a)) list \<Rightarrow> (nat \<times> error) list" where
  "rejected [] = []"
| "rejected ((t, Inl e) # ps) = (t, e) # rejected ps"
| "rejected ((t, Inr v) # ps) = rejected ps"

fun fulfilled :: "(nat \<times> (error + 'a)) list \<Rightarrow> 'a list" where
  "fulfilled [] = []"
| "fulfilled ((t, Inl e) # ps) = fulfilled ps"
| "fulfilled ((t, Inr v) # ps) = v # fulfilled ps"

definition Promise_all :: "(nat \<times> (error + 'a)) list \<Rightarrow> error + 'a list" where
  "Promise_all ps =
     (case rejected ps of
        [] \<Rightarrow> Inr (fulfilled ps)
      | r # rs \<Rightarrow> Inl (snd (arg_min_list fst (r # rs))))"

text \<open>Lines 416-424.\<close>

definition ExceptionTool :: Tool where
  "ExceptionTool =
     \<lparr>name = ''_Exception'', returnDirect = False, call = (\<lambda>query. Inr query),
      delay = (\<lambda>query. 0)\<rparr>"

subsection \<open>\<^verbatim>\<open>AgentExecutor\<close>\<close>

text \<open>The constructor, lines 487-514.\<close>

definition AgentExecutor_constructor :: "AgentExecutorInput \<Rightarrow> error + AgentExecutor" where
  "AgentExecutor_constructor input =
     (let this = \<lparr>agent = in_agent input,
                  tools = in_tools input,
                  returnIntermediateSteps =
                    (case in_returnIntermediateSteps input of None \<Rightarrow> False | Some b \<Rightarrow> b),
                  maxIterations =
                    Some (case in_maxIterations input of None \<Rightarrow> 15 | Some n \<Rightarrow> n),
                  earlyStoppingMethod =
                    (case in_earlyStoppingMethod input of None \<Rightarrow> ''force'' | Some m \<Rightarrow> m),
                  handleParsingErrors =
                    (case in_handleParsingErrors input of None \<Rightarrow> HBool False | Some h \<Rightarrow> h),
                  prepOutputs = in_prepOutputs input\<rparr>
      in if agentActionType (in_agent input) = ''multi''
         then (case find returnDirect (in_tools input) of
                 Some t \<Rightarrow>
                   Inl (Error (''Tool with return direct '' @ name t @
                               '' not supported for multi-action agent.''))
               | None \<Rightarrow> Inr this)
         else Inr this)"

text \<open>\<^verbatim>\<open>shouldContinue\<close>, lines 531-533.\<close>

definition shouldContinue :: "AgentExecutor \<Rightarrow> nat \<Rightarrow> bool" where
  "shouldContinue this its =
     (case maxIterations this of None \<Rightarrow> True | Some m \<Rightarrow> int its < m)"

text \<open>\<^verbatim>\<open>toolsByName\<close> of \<^verbatim>\<open>_call\<close>, lines 540-542.\<close>

definition toolsByName :: "AgentExecutor \<Rightarrow> (string \<times> Tool) list" where
  "toolsByName this = Object_fromEntries (map (\<lambda>t. (toLowerCase (name t), t)) (tools this))"

text \<open>\<^verbatim>\<open>getOutput\<close> of \<^verbatim>\<open>_call\<close>, lines 546-557.\<close>

definition getOutput :: "AgentExecutor \<Rightarrow> AgentStep list \<Rightarrow> AgentFinish \<Rightarrow> ChainValues" where
  "getOutput this steps finishStep =
     (let additional = prepareForOutput (agent this) (returnValues finishStep) steps
      in if returnIntermediateSteps this
         then (returnValues finishStep)(''intermediateSteps'' \<mapsto> VSteps steps) ++ additional
         else returnValues finishStep ++ additional)"

text \<open>
  The \<^verbatim>\<open>try\<close>/\<^verbatim>\<open>catch\<close> around \<^verbatim>\<open>agent.plan\<close>: lines 561-590 of \<^verbatim>\<open>_call\<close> and, with
  the same text, lines 671-704 of \<^verbatim>\<open>_takeNextStep\<close>.
\<close>

definition plan_catch :: "AgentExecutor \<Rightarrow> AgentStep list \<Rightarrow> ChainValues \<Rightarrow> error + plan_output" where
  "plan_catch this steps inps =
     (case plan (agent this) steps inps of
        Inr output \<Rightarrow> Inr output
      | Inl (OutputParserException message sendToLLM e_observation llmOutput) \<Rightarrow>
          (case handleParsingErrors this of
             HBool True \<Rightarrow>
               (if sendToLLM
                then Inr (Action \<lparr>tool = ''_Exception'', toolInput = e_observation,
                                  log = (case llmOutput of None \<Rightarrow> '''' | Some t \<Rightarrow> t)\<rparr>)
                else Inr (Action \<lparr>tool = ''_Exception'',
                                  toolInput = ''Invalid or incomplete response'',
                                  log = message\<rparr>))
           | HString s \<Rightarrow>
               Inr (Action \<lparr>tool = ''_Exception'', toolInput = s, log = message\<rparr>)
           | HFunction f \<Rightarrow>
               Inr (Action \<lparr>tool = ''_Exception'',
                            toolInput =
                              f (OutputParserException message sendToLLM e_observation llmOutput),
                            log = message\<rparr>)
           | HBool False \<Rightarrow>
               Inl (OutputParserException message sendToLLM e_observation llmOutput))
      | Inl e \<Rightarrow> Inl e)"

text \<open>The actions of a plan that is not a finish, lines 596-601 and 710-715.\<close>

fun actions_of :: "plan_output \<Rightarrow> AgentAction list" where
  "actions_of (Actions as) = as"
| "actions_of (Action a) = [a]"
| "actions_of (Finish f) = []"

text \<open>
  The \<^verbatim>\<open>catch\<close> of a \<^verbatim>\<open>ToolInputParsingException\<close>, lines 617-633 and 732-747: the
  observation chosen by \<^verbatim>\<open>handleParsingErrors\<close> goes through the exception tool.
\<close>

definition tool_input_catch :: "AgentExecutor \<Rightarrow> AgentAction \<Rightarrow> string \<Rightarrow> error + AgentStep" where
  "tool_input_catch this a message =
     (let through = (\<lambda>obs. case call ExceptionTool obs of
                              Inl e \<Rightarrow> Inl e
                            | Inr obs' \<Rightarrow> Inr \<lparr>action = a, observation = Str obs'\<rparr>)
      in case handleParsingErrors this of
           HBool True \<Rightarrow> through ''Invalid or incomplete tool input. Please try again.''
         | HString s \<Rightarrow> through s
         | HFunction f \<Rightarrow> through (f (ToolInputParsingException message))
         | HBool False \<Rightarrow> Inl (ToolInputParsingException message))"

text \<open>
  The tool of an action in \<^verbatim>\<open>_call\<close>, lines 606-609: the exception tool for the
  reserved name, else what \<^verbatim>\<open>toolsByName\<close> holds under the lower-cased name.
\<close>

definition resolve :: "(string \<times> Tool) list \<Rightarrow> AgentAction \<Rightarrow> Tool property" where
  "resolve byName a =
     (if tool a = ''_Exception'' then Own ExceptionTool
      else property byName (toLowerCase (tool a)))"

text \<open>
  The callback mapped over the actions in \<^verbatim>\<open>_call\<close>, lines 604-637. An error of the
  call that is not a \<^verbatim>\<open>ToolInputParsingException\<close> leaves the \<^verbatim>\<open>catch\<close> block without
  being thrown again, \<^verbatim>\<open>observation\<close> is still \<^verbatim>\<open>undefined\<close>, and the step gets
  \<^verbatim>\<open>observation ?? ""\<close>. What \<^verbatim>\<open>toolsByName\<close> inherits under the name is truthy and is
  called like a tool.
\<close>

definition call_action :: "AgentExecutor \<Rightarrow> (string \<times> Tool) list \<Rightarrow> AgentAction \<Rightarrow> error + AgentStep" where
  "call_action this byName a =
     (case resolve byName a of
        Absent \<Rightarrow>
          Inr \<lparr>action = a,
               observation = Str (tool a @ '' is not a valid tool, try another one.'')\<rparr>
      | Own t \<Rightarrow>
          (case call t (toolInput a) of
             Inr obs \<Rightarrow> Inr \<lparr>action = a, observation = Str obs\<rparr>
           | Inl (ToolInputParsingException message) \<Rightarrow> tool_input_catch this a message
           | Inl e \<Rightarrow> Inr \<lparr>action = a, observation = Str ''''\<rparr>)
      | Inherited k \<Rightarrow>
          (case prototype_call k (toolInput a) of
             Inr v \<Rightarrow> Inr \<lparr>action = a, observation = (if v = Undefined then Str '''' else v)\<rparr>
           | Inl e \<Rightarrow> Inr \<lparr>action = a, observation = Str ''''\<rparr>))"

text \<open>
  The time at which the callback for an action settles: that of the call of its tool
  (only a call of a tool can make the callback throw).
\<close>

definition settles :: "(string \<times> Tool) list \<Rightarrow> AgentAction \<Rightarrow> nat" where
  "settles byName a =
     (case resolve byName a of Own t \<Rightarrow> delay t (toolInput a) | Inherited k \<Rightarrow> 0 | Absent \<Rightarrow> 0)"

text \<open>
  Running the step function of \<^verbatim>\<open>_takeNextStep\<close> over the actions one after the other
  (the \<^verbatim>\<open>for\<close> loop of lines 718-760); the first error ends it.
\<close>

fun map_actions :: "(AgentAction \<Rightarrow> error + AgentStep) \<Rightarrow> AgentAction list \<Rightarrow> error + AgentStep list" where
  "map_actions f [] = Inr []"
| "map_actions f (a # as) =
     (case f a of
        Inl e \<Rightarrow> Inl e
      | Inr s \<Rightarrow> (case map_actions f as of Inl e \<Rightarrow> Inl e | Inr ss \<Rightarrow> Inr (s # ss)))"

text \<open>The key \<^verbatim>\<open>[this.agent.returnValues[0]]\<close> of line 647.\<close>

definition returnValues_0 :: "Agent \<Rightarrow> string" where
  "returnValues_0 ag = (case agent_returnValues ag of [] \<Rightarrow> ''undefined'' | k # ks \<Rightarrow> k)"

text \<open>
  The state of \<^verbatim>\<open>_call\<close> when it returns or throws: the local \<^verbatim>\<open>steps\<close> and
  \<^verbatim>\<open>iterations\<close>, and what the caller gets.
\<close>

record Run =
  run_steps :: "AgentStep list"
  run_iterations :: nat
  run_outcome :: "error + ChainValues"

text \<open>
  The body of the \<^verbatim>\<open>while\<close> loop of \<^verbatim>\<open>_call\<close>, lines 560-651: the steps after the
  cycle, and the outcome when the cycle ends the run. \<^verbatim>\<open>lastTool?.returnDirect\<close> is
  \<^verbatim>\<open>undefined\<close> for a value that \<^verbatim>\<open>toolsByName\<close> inherits.
\<close>

definition call_cycle ::
  "AgentExecutor \<Rightarrow> (string \<times> Tool) list \<Rightarrow> ChainValues \<Rightarrow> AgentStep list
     \<Rightarrow> AgentStep list \<times> (error + ChainValues) option" where
  "call_cycle this byName inps steps =
     (case plan_catch this steps inps of
        Inl e \<Rightarrow> (steps, Some (Inl e))
      | Inr (Finish f) \<Rightarrow> (steps, Some (Inr (getOutput this steps f)))
      | Inr output \<Rightarrow>
          (case Promise_all (map (\<lambda>a. (settles byName a, call_action this byName a))
                               (actions_of output)) of
             Inl e \<Rightarrow> (steps, Some (Inl e))
           | Inr newSteps \<Rightarrow>
               (let steps' = steps @ newSteps
                in if steps' = [] then (steps', Some (Inl TypeError))
                   else
                     (let lastStep = last steps';
                          lastTool = property byName (toLowerCase (tool (action lastStep)))
                      in if (case lastTool of Own t \<Rightarrow> returnDirect t
                                            | Inherited k \<Rightarrow> False | Absent \<Rightarrow> False)
                         then (steps',
                               Some (Inr (getOutput this steps'
                                 \<lparr>returnValues =
                                    [returnValues_0 (agent this) \<mapsto> VObs (observation lastStep)],
                                  finish_log = ''''\<rparr>)))
                         else (steps', None)))))"

text \<open>What follows the loop of \<^verbatim>\<open>_call\<close>, lines 655-661.\<close>

definition call_stopped :: "AgentExecutor \<Rightarrow> ChainValues \<Rightarrow> AgentStep list \<Rightarrow> error + ChainValues" where
  "call_stopped this inps steps =
     (case returnStoppedResponse (agent this) (earlyStoppingMethod this) steps inps of
        Inl e \<Rightarrow> Inl e
      | Inr finish \<Rightarrow> Inr (getOutput this steps finish))"

text \<open>The \<^verbatim>\<open>while\<close> loop of \<^verbatim>\<open>_call\<close> and what follows it, lines 559-661.\<close>

partial_function (option) call_loop ::
  "AgentExecutor \<Rightarrow> (string \<times> Tool) list \<Rightarrow> ChainValues \<Rightarrow> AgentStep list \<Rightarrow> nat \<Rightarrow> Run option" where
  "call_loop this byName inps steps its =
     (if shouldContinue this its
      then (case call_cycle this byName inps steps of
              (steps', Some res) \<Rightarrow>
                Some \<lparr>run_steps = steps', run_iterations = its, run_outcome = res\<rparr>
            | (steps', None) \<Rightarrow> call_loop this byName inps steps' (its + 1))
      else Some \<lparr>run_steps = steps, run_iterations = its,
                  run_outcome = call_stopped this inps steps\<rparr>)"

text \<open>\<^verbatim>\<open>_call\<close>, lines 536-662; \<open>None\<close> is a run that never returns.\<close>

definition AgentExecutor_call :: "AgentExecutor \<Rightarrow> ChainValues \<Rightarrow> (error + ChainValues) option" where
  "AgentExecutor_call this inps =
     map_option run_outcome (call_loop this (toolsByName this) inps [] 0)"

text \<open>
  The body of the \<^verbatim>\<open>for\<close> loop of \<^verbatim>\<open>_takeNextStep\<close>, lines 718-760; \<^verbatim>\<open>observation\<close>
  starts as \<^verbatim>\<open>""\<close> and stays so when the \<^verbatim>\<open>catch\<close> block is left without an
  assignment. A name that \<^verbatim>\<open>nameToolMap\<close> inherits is \<^verbatim>\<open>in\<close> it, and the value under it
  is called like a tool.
\<close>

definition takeNextStep_action ::
  "AgentExecutor \<Rightarrow> (string \<times> Tool) list \<Rightarrow> AgentAction \<Rightarrow> error + AgentStep" where
  "takeNextStep_action this nameToolMap agentAction =
     (case property nameToolMap (tool agentAction) of
        Own t \<Rightarrow>
          (case call t (toolInput agentAction) of
             Inr obs \<Rightarrow> Inr \<lparr>action = agentAction, observation = Str obs\<rparr>
           | Inl (ToolInputParsingException message) \<Rightarrow> tool_input_catch this agentAction message
           | Inl e \<Rightarrow> Inr \<lparr>action = agentAction, observation = Str ''''\<rparr>)
      | Inherited k \<Rightarrow>
          (case prototype_call k (toolInput agentAction) of
             Inr v \<Rightarrow> Inr \<lparr>action = agentAction, observation = v\<rparr>
           | Inl e \<Rightarrow> Inr \<lparr>action = agentAction, observation = Str ''''\<rparr>)
      | Absent \<Rightarrow>
          Inr \<lparr>action = agentAction,
               observation = Str (tool agentAction @
                 '' is not a valid tool, try another available tool: '' @
                 join '', '' (Object_keys nameToolMap))\<rparr>)"

text \<open>\<^verbatim>\<open>_takeNextStep\<close>, lines 664-762: a finish (\<open>Inl\<close>) or the new steps (\<open>Inr\<close>).\<close>

definition takeNextStep ::
  "AgentExecutor \<Rightarrow> (string \<times> Tool) list \<Rightarrow> ChainValues \<Rightarrow> AgentStep list
     \<Rightarrow> error + (AgentFinish + AgentStep list)" where
  "takeNextStep this nameToolMap inps steps =
     (case plan_catch this steps inps of
        Inl e \<Rightarrow> Inl e
      | Inr (Finish f) \<Rightarrow> Inr (Inl f)
      | Inr output \<Rightarrow>
          (case map_actions (takeNextStep_action this nameToolMap) (actions_of output) of
             Inl e \<Rightarrow> Inl e
           | Inr result \<Rightarrow> Inr (Inr result)))"

text \<open>\<^verbatim>\<open>_return\<close>, lines 764-777.\<close>

definition AgentExecutor_return :: "AgentExecutor \<Rightarrow> AgentFinish \<Rightarrow> AgentStep list \<Rightarrow> ChainValues" where
  "AgentExecutor_return this output steps =
     (if returnIntermediateSteps this
      then (returnValues output)(''intermediateSteps'' \<mapsto> VSteps steps)
      else returnValues output)"

text \<open>
  \<^verbatim>\<open>_getToolReturn\<close>, lines 779-795. A value that the table inherits has no
  \<^verbatim>\<open>returnDirect\<close>.
\<close>

definition getToolReturn :: "AgentExecutor \<Rightarrow> AgentStep \<Rightarrow> AgentFinish option" where
  "getToolReturn this nextStepOutput =
     (let nameToolMap = Object_fromEntries (map (\<lambda>t. (toLowerCase (name t), t)) (tools this));
          returnValueKey = (case agent_returnValues (agent this) of [] \<Rightarrow> ''output'' | k # ks \<Rightarrow> k)
      in case property nameToolMap (tool (action nextStepOutput)) of
           Own t \<Rightarrow>
             if returnDirect t
             then Some \<lparr>returnValues = [returnValueKey \<mapsto> VObs (observation nextStepOutput)],
                        finish_log = ''''\<rparr>
             else None
         | Inherited k \<Rightarrow> None
         | Absent \<Rightarrow> None)"

text \<open>\<^verbatim>\<open>_returnStoppedResponse\<close>, lines 797-809. Nothing in the source calls it.\<close>

definition AgentExecutor_returnStoppedResponse :: "string \<Rightarrow> error + AgentFinish" where
  "AgentExecutor_returnStoppedResponse method =
     (if method = ''force''
      then Inr \<lparr>returnValues =
                  [''output'' \<mapsto> VStr ''Agent stopped due to iteration limit or time limit.''],
                finish_log = ''''\<rparr>
      else Inl (Error (''Got unsupported early_stopping_method: '' @ method)))"

subsection \<open>\<^verbatim>\<open>AgentExecutorIterator\<close>\<close>

text \<open>\<^verbatim>\<open>setFinalOutputs\<close>, lines 176-183; an object is always truthy.\<close>

definition setFinalOutputs :: "AgentExecutorIterator \<Rightarrow> ChainValues option \<Rightarrow> AgentExecutorIterator" where
  "setFinalOutputs this v =
     (case v of
        None \<Rightarrow> this\<lparr>finalOutputs := None\<rparr>
      | Some outputs \<Rightarrow>
          this\<lparr>finalOutputs := Some (prepOutputs (agentExecutor this) (inputs this) outputs True)\<rparr>)"

text \<open>The getter \<^verbatim>\<open>nameToToolMap\<close>, lines 191-196.\<close>

definition nameToToolMap :: "AgentExecutorIterator \<Rightarrow> (string \<times> Tool) list" where
  "nameToToolMap this = Object_assign (map (\<lambda>t. (name t, t)) (tools (agentExecutor this)))"

text \<open>\<^verbatim>\<open>reset\<close>, lines 212-216.\<close>

definition reset :: "AgentExecutorIterator \<Rightarrow> AgentExecutorIterator" where
  "reset this = this\<lparr>intermediateSteps := [], iterations := 0, finalOutputs := None\<rparr>"

text \<open>\<^verbatim>\<open>updateIterations\<close>, lines 218-220.\<close>

definition updateIterations :: "AgentExecutorIterator \<Rightarrow> AgentExecutorIterator" where
  "updateIterations this = this\<lparr>iterations := iterations this + 1\<rparr>"

text \<open>\<^verbatim>\<open>_executeNextStep\<close>, lines 286-295.\<close>

definition executeNextStep :: "AgentExecutorIterator \<Rightarrow> error + (AgentFinish + AgentStep list)" where
  "executeNextStep this =
     takeNextStep (agentExecutor this) (nameToToolMap this) (inputs this) (intermediateSteps this)"

text \<open>
  \<^verbatim>\<open>_processNextStepOutput\<close>, lines 301-340: the iterator afterwards and the value
  returned. After a batch of steps the value is \<^verbatim>\<open>{ intermediateSteps: nextStepOutput }\<close>
  whether or not a tool return was stored.
\<close>

definition processNextStepOutput ::
  "AgentExecutorIterator \<Rightarrow> AgentFinish + AgentStep list \<Rightarrow> AgentExecutorIterator \<times> ChainValues" where
  "processNextStepOutput this nextStepOutput =
     (case nextStepOutput of
        Inl finish \<Rightarrow>
          (let output = AgentExecutor_return (agentExecutor this) finish (intermediateSteps this)
           in (setFinalOutputs this (Some output), output))
      | Inr newSteps \<Rightarrow>
          (let this1 = this\<lparr>intermediateSteps := intermediateSteps this @ newSteps\<rparr>;
               this2 =
                 (case newSteps of
                    [nextStep] \<Rightarrow>
                      (case getToolReturn (agentExecutor this1) nextStep of
                         Some toolReturn \<Rightarrow>
                           setFinalOutputs this1
                             (Some (AgentExecutor_return (agentExecutor this1) toolReturn
                                      (intermediateSteps this1)))
                       | None \<Rightarrow> this1)
                  | _ \<Rightarrow> this1)
           in (this2, [''intermediateSteps'' \<mapsto> VSteps newSteps])))"

text \<open>\<^verbatim>\<open>_stop\<close>, lines 342-355.\<close>

definition stop :: "AgentExecutorIterator \<Rightarrow> error + AgentExecutorIterator \<times> ChainValues" where
  "stop this =
     (case returnStoppedResponse (agent (agentExecutor this))
             (earlyStoppingMethod (agentExecutor this)) (intermediateSteps this) (inputs this) of
        Inl e \<Rightarrow> Inl e
      | Inr output \<Rightarrow>
          (let returnedOutput =
                 AgentExecutor_return (agentExecutor this) output (intermediateSteps this)
           in Inr (setFinalOutputs this (Some returnedOutput), returnedOutput)))"

text \<open>\<^verbatim>\<open>_callNext\<close>, lines 357-379.\<close>

definition callNext :: "AgentExecutorIterator \<Rightarrow> error + AgentExecutorIterator \<times> ChainValues" where
  "callNext this =
     (case finalOutputs this of
        Some outputs \<Rightarrow> Inl (FinalOutputsReached outputs)
      | None \<Rightarrow>
          if \<not> shouldContinue (agentExecutor this) (iterations this) then stop this
          else (case executeNextStep this of
                  Inl e \<Rightarrow> Inl e
                | Inr nextStepOutput \<Rightarrow>
                    (case processNextStepOutput this nextStepOutput of
                       (this', output) \<Rightarrow> Inr (updateIterations this', output))))"

text \<open>
  The test of the \<^verbatim>\<open>catch\<close> in \<^verbatim>\<open>streamIterator\<close>, lines 236-239: the message of the
  thrown value starts with \<^verbatim>\<open>"Final outputs already reached: "\<close>.
\<close>

fun final_outputs_message :: "error \<Rightarrow> bool" where
  "final_outputs_message (FinalOutputsReached outputs) = True"
| "final_outputs_message (OutputParserException message sendToLLM e_observation llmOutput) =
     startsWith message ''Final outputs already reached: ''"
| "final_outputs_message (ToolInputParsingException message) =
     startsWith message ''Final outputs already reached: ''"
| "final_outputs_message TypeError = False"
| "final_outputs_message (Error message) =
     startsWith message ''Final outputs already reached: ''"

text \<open>
  A drained generator: the iterator at the end, the values it yielded in order, and the
  value it returned or the error it threw.
\<close>

record Drained =
  drained_iterator :: AgentExecutorIterator
  drained_yields :: "ChainValues list"
  drained_outcome :: "error + ChainValues"

text \<open>
  The \<^verbatim>\<open>while (true)\<close> loop of \<^verbatim>\<open>streamIterator\<close>, lines 226-250, pulled until the
  generator is done. \<^verbatim>\<open>onFirstStep\<close> only sets up callbacks.
\<close>

partial_function (option) streamIterator_loop ::
  "AgentExecutorIterator \<Rightarrow> ChainValues list \<Rightarrow> Drained option" where
  "streamIterator_loop this yields =
     (case callNext this of
        Inr (this', result) \<Rightarrow> streamIterator_loop this' (yields @ [result])
      | Inl e \<Rightarrow>
          Some \<lparr>drained_iterator = this, drained_yields = yields,
                drained_outcome =
                  (if final_outputs_message e
                   then (case finalOutputs this of None \<Rightarrow> Inl e | Some outputs \<Rightarrow> Inr outputs)
                   else Inl e)\<rparr>)"

text \<open>\<^verbatim>\<open>streamIterator\<close>, lines 222-251, drained.\<close>

definition streamIterator :: "AgentExecutorIterator \<Rightarrow> Drained option" where
  "streamIterator this = streamIterator_loop (reset this) []"

text \<open>
  What a caller has of a drained \<^verbatim>\<open>streamIterator\<close> of a new iterator over an executor
  and its inputs: the value returned or the error thrown.
\<close>

definition drain :: "AgentExecutor \<Rightarrow> ChainValues \<Rightarrow> (error + ChainValues) option" where
  "drain ex inps =
     map_option drained_outcome
       (streamIterator \<lparr>agentExecutor = ex, inputs = inps, finalOutputs = None,
                        intermediateSteps = [], iterations = 0\<rparr>)"

section \<open>The continuation predicate of the specification\<close>

text \<open>
  The continuation predicate in the words of the specification (section 4.4), to be
  compared with \<open>shouldContinue\<close>: the iteration bound, and a wall-clock budget
  \<^verbatim>\<open>maxExecutionTime\<close> read the same way against the elapsed time.
\<close>

definition continuation_predicate_spec :: "int option \<Rightarrow> nat option \<Rightarrow> nat \<Rightarrow> nat \<Rightarrow> bool" where
  "continuation_predicate_spec maxIters maxExecutionTime its elapsed =
     ((case maxIters of None \<Rightarrow> True | Some m \<Rightarrow> int its < m) \<and>
      (case maxExecutionTime of None \<Rightarrow> True | Some t \<Rightarrow> elapsed < t))"

section \<open>Concrete configurations\<close>

text \<open>
  A decision-maker around a given \<open>plan\<close>: one output key, single-action, a stopped
  response like that of \<^verbatim>\<open>_returnStoppedResponse\<close>, nothing added to the output.
\<close>

definition example_agent :: "(AgentStep list \<Rightarrow> ChainValues \<Rightarrow> error + plan_output) \<Rightarrow> Agent" where
  "example_agent p =
     \<lparr>plan = p, agent_returnValues = [''output''], agentActionType = ''single'',
      returnStoppedResponse = (\<lambda>method steps inps. AgentExecutor_returnStoppedResponse method),
      prepareForOutput = (\<lambda>vals steps. Map.empty)\<rparr>"

text \<open>An executor with \<^verbatim>\<open>maxIterations = 2\<close> and every other option at its default.\<close>

definition example_executor :: "Agent \<Rightarrow> Tool list \<Rightarrow> AgentExecutor" where
  "example_executor ag ts =
     \<lparr>agent = ag, tools = ts, returnIntermediateSteps = False, maxIterations = Some 2,
      earlyStoppingMethod = ''force'', handleParsingErrors = HBool False,
      prepOutputs = (\<lambda>inps outputs only. if only then outputs else inps ++ outputs)\<rparr>"

text \<open>A new iterator over an executor, with no inputs.\<close>

definition new_iterator :: "AgentExecutor \<Rightarrow> AgentExecutorIterator" where
  "new_iterator ex =
     \<lparr>agentExecutor = ex, inputs = Map.empty, finalOutputs = None,
      intermediateSteps = [], iterations = 0\<rparr>"

text \<open>The iterator between two pulls of a run that has not finished.\<close>

definition iterator_at ::
  "AgentExecutor \<Rightarrow> ChainValues \<Rightarrow> AgentStep list \<Rightarrow> nat \<Rightarrow> AgentExecutorIterator" where
  "iterator_at ex inps steps n =
     \<lparr>agentExecutor = ex, inputs = inps, finalOutputs = None,
      intermediateSteps = steps, iterations = n\<rparr>"

text \<open>
  A plan that asks for one action on an empty history, and afterwards finishes with the
  last observation as its output.
\<close>

definition plan_then_finish :: "AgentAction \<Rightarrow> AgentStep list \<Rightarrow> ChainValues \<Rightarrow> error + plan_output" where
  "plan_then_finish a steps inps =
     (case steps of
        [] \<Rightarrow> Inr (Action a)
      | s # ss \<Rightarrow>
          Inr (Finish \<lparr>returnValues = [''output'' \<mapsto> VObs (observation (last steps))],
                       finish_log = ''''\<rparr>))"

text \<open>A tool that gives its input back.\<close>

definition echo_tool :: "string \<Rightarrow> bool \<Rightarrow> Tool" where
  "echo_tool n direct =
     \<lparr>name = n, returnDirect = direct, call = (\<lambda>x. Inr x), delay = (\<lambda>x. 0)\<rparr>"

text \<open>A tool whose own implementation fails on every input, and a run that calls it.\<close>

definition failing_tool :: Tool where
  "failing_tool =
     \<lparr>name = ''calc'', returnDirect = False, call = (\<lambda>x. Inl (Error ''boom'')),
      delay = (\<lambda>x. 0)\<rparr>"

definition calc_action :: AgentAction where
  "calc_action = \<lparr>tool = ''calc'', toolInput = ''1/0'', log = ''''\<rparr>"

definition ex_failing :: AgentExecutor where
  "ex_failing = example_executor (example_agent (plan_then_finish calc_action)) [failing_tool]"

text \<open>An action on a tool that is not registered.\<close>

definition search_action :: AgentAction where
  "search_action = \<lparr>tool = ''search'', toolInput = ''weather'', log = ''''\<rparr>"

definition ex_unknown :: AgentExecutor where
  "ex_unknown =
     example_executor (example_agent (plan_then_finish search_action))
       [echo_tool ''echo'' False, echo_tool ''lookup'' False]"

text \<open>An action \<^verbatim>\<open>echo\<close> for an executor whose tool is registered as \<^verbatim>\<open>Echo\<close>.\<close>

definition echo_action :: AgentAction where
  "echo_action = \<lparr>tool = ''echo'', toolInput = ''hello'', log = ''''\<rparr>"

definition ex_case :: AgentExecutor where
  "ex_case = example_executor (example_agent (plan_then_finish echo_action)) [echo_tool ''Echo'' False]"

text \<open>A return-direct tool \<^verbatim>\<open>Search\<close> and a plan that always asks for it by that name.\<close>

definition Search_action :: AgentAction where
  "Search_action = \<lparr>tool = ''Search'', toolInput = ''weather'', log = ''''\<rparr>"

definition ex_direct :: AgentExecutor where
  "ex_direct =
     example_executor (example_agent (\<lambda>steps inps. Inr (Action Search_action)))
       [echo_tool ''Search'' True]"

text \<open>
  A plan that always fails with an output-parsing error, under
  \<^verbatim>\<open>handleParsingErrors = "use X"\<close>.
\<close>

definition ex_unparsable :: AgentExecutor where
  "ex_unparsable =
     (example_executor
        (example_agent (\<lambda>steps inps. Inl (OutputParserException ''Could not parse'' False '''' None)))
        [])\<lparr>handleParsingErrors := HString ''use X''\<rparr>"

definition Exception_action :: AgentAction where
  "Exception_action = \<lparr>tool = ''_Exception'', toolInput = ''use X'', log = ''Could not parse''\<rparr>"

text \<open>Runs over a registered tool \<^verbatim>\<open>say\<close>: one that finishes, one that never does.\<close>

definition say_action :: AgentAction where
  "say_action = \<lparr>tool = ''say'', toolInput = ''hello'', log = ''''\<rparr>"

definition ex_say :: AgentExecutor where
  "ex_say = example_executor (example_agent (plan_then_finish say_action)) [echo_tool ''say'' False]"

definition ex_looping :: AgentExecutor where
  "ex_looping =
     example_executor (example_agent (\<lambda>steps inps. Inr (Action say_action)))
       [echo_tool ''say'' False]"

text \<open>
  The same never-finishing run with a decision-maker whose stopped response has a
  message of its own.
\<close>

definition own_stopped_response :: "string \<Rightarrow> AgentStep list \<Rightarrow> ChainValues \<Rightarrow> error + AgentFinish" where
  "own_stopped_response method steps inps =
     (if method = ''force''
      then Inr \<lparr>returnValues = [''output'' \<mapsto> VStr ''Agent stopped due to max iterations.''],
                finish_log = ''''\<rparr>
      else Inl (Error (''Invalid stopping method: '' @ method)))"

definition ex_own_stop :: AgentExecutor where
  "ex_own_stop =
     example_executor
       ((example_agent (\<lambda>steps inps. Inr (Action say_action)))
          \<lparr>returnStoppedResponse := own_stopped_response\<rparr>)
       [echo_tool ''say'' False]"

text \<open>
  Decision-makers that never finish: the plan is an empty batch; the plan fails; the
  plan asks for a tool that refuses its input.
\<close>

definition ex_empty_plan :: AgentExecutor where
  "ex_empty_plan =
     example_executor (example_agent (\<lambda>steps inps. Inr (Actions []))) [echo_tool ''say'' False]"

definition ex_plan_fails :: AgentExecutor where
  "ex_plan_fails =
     example_executor (example_agent (\<lambda>steps inps. Inl (Error ''timeout'')))
       [echo_tool ''say'' False]"

definition strict_tool :: Tool where
  "strict_tool =
     \<lparr>name = ''say'', returnDirect = False,
      call = (\<lambda>x. Inl (ToolInputParsingException ''bad input'')), delay = (\<lambda>x. 0)\<rparr>"

definition ex_bad_input :: AgentExecutor where
  "ex_bad_input =
     example_executor (example_agent (\<lambda>steps inps. Inr (Action say_action))) [strict_tool]"

text \<open>A multi-action decision-maker with a return-direct tool in the list.\<close>

definition input_multi :: AgentExecutorInput where
  "input_multi =
     \<lparr>in_agent = (example_agent (plan_then_finish say_action))\<lparr>agentActionType := ''multi''\<rparr>,
      in_tools = [echo_tool ''echo'' False, echo_tool ''search'' True],
      in_returnIntermediateSteps = None, in_maxIterations = None,
      in_earlyStoppingMethod = None, in_handleParsingErrors = None,
      in_prepOutputs = (\<lambda>inps outputs only. outputs)\<rparr>"

text \<open>The iterator that a drained run over \<open>ex_say\<close> leaves behind.\<close>

definition it_say_done :: AgentExecutorIterator where
  "it_say_done =
     \<lparr>agentExecutor = ex_say, inputs = Map.empty,
      finalOutputs = Some [''output'' \<mapsto> VStr ''hello''],
      intermediateSteps = [\<lparr>action = say_action, observation = Str ''hello''\<rparr>], iterations = 2\<rparr>"

section \<open>Properties\<close>

lemmas call_defs =
  toolsByName_def Object_fromEntries_def toLowerCase_def toLowerCase_char_def
  call_cycle_def plan_catch_def call_action_def resolve_def settles_def property_def
  Object_prototype_keys_def Promise_all_def getOutput_def shouldContinue_def
  returnValues_0_def ExceptionTool_def tool_input_catch_def call_stopped_def Let_def

lemmas iterator_defs =
  streamIterator_def reset_def callNext_def stop_def executeNextStep_def
  takeNextStep_def takeNextStep_action_def processNextStepOutput_def setFinalOutputs_def
  updateIterations_def nameToToolMap_def Object_assign_def getToolReturn_def
  AgentExecutor_return_def AgentExecutor_returnStoppedResponse_def
  Object_keys_def array_index_def digit_def

lemmas example_defs =
  example_agent_def example_executor_def new_iterator_def plan_then_finish_def echo_tool_def

subsection \<open>Tables\<close>

lemma update_set_subset: "set (AList.update k v al) \<subseteq> insert (k, v) (set al)"
  by (induction al) auto

lemma Object_fromEntries_set_aux:
  "set (fold (\<lambda>(k, v) obj. AList.update k v obj) es acc) \<subseteq> set es \<union> set acc"
proof (induction es arbitrary: acc)
  case Nil
  show ?case by simp
next
  case (Cons e es)
  obtain k v where e: "e = (k, v)" by (cases e)
  from Cons[of "AList.update k v acc"] update_set_subset[of k v acc] e
  show ?case by auto
qed

lemma Object_fromEntries_keys_aux:
  "fst ` set (fold (\<lambda>(k, v) obj. AList.update k v obj) es acc) = fst ` set es \<union> fst ` set acc"
  by (induction es arbitrary: acc) (auto simp: dom_update split: prod.splits)

text \<open>The own keys of a table are the keys of its entries.\<close>

lemma Object_fromEntries_keys: "fst ` set (Object_fromEntries es) = fst ` set es"
  by (simp add: Object_fromEntries_def Object_fromEntries_keys_aux)

lemma map_of_Object_fromEntries_None:
  "map_of (Object_fromEntries es) k = None \<longleftrightarrow> k \<notin> fst ` set es"
  by (simp add: map_of_eq_None_iff Object_fromEntries_keys)

lemma map_of_Object_fromEntries_Some:
  "map_of (Object_fromEntries es) k = Some v \<Longrightarrow> (k, v) \<in> set es"
  using Object_fromEntries_set_aux[of es "[]"]
  by (auto simp: Object_fromEntries_def dest!: map_of_SomeD)

lemma property_Own: "property obj k = Own v \<longleftrightarrow> map_of obj k = Some v"
  by (simp add: property_def split: option.splits)

text \<open>An own value of \<^verbatim>\<open>toolsByName\<close> is a tool of the executor.\<close>

lemma toolsByName_Own: "property (toolsByName ex) k = Own t \<Longrightarrow> t \<in> set (tools ex)"
  by (auto simp: property_Own toolsByName_def dest!: map_of_Object_fromEntries_Some)

text \<open>\<^verbatim>\<open>Object.keys\<close> lists the own keys.\<close>

lemma Object_keys_set: "set (Object_keys obj) = fst ` set obj"
  by (auto simp: Object_keys_def)

subsection \<open>\<^verbatim>\<open>Promise.all\<close>\<close>

text \<open>When no promise is rejected, the results in the order of the promises.\<close>

lemma Promise_all_fulfilled:
  assumes "\<And>a. a \<in> set as \<Longrightarrow> f a = Inr (g a)"
  shows "Promise_all (map (\<lambda>a. (d a, f a)) as) = Inr (map g as)"
proof -
  from assms have "rejected (map (\<lambda>a. (d a, f a)) as) = [] \<and>
      fulfilled (map (\<lambda>a. (d a, f a)) as) = map g as"
    by (induction as) simp_all
  then show ?thesis by (simp add: Promise_all_def)
qed

text \<open>A rejection of \<^verbatim>\<open>Promise.all\<close> is the error of one of the promises.\<close>

lemma rejected_set: "(t, e) \<in> set (rejected ps) \<Longrightarrow> (t, Inl e) \<in> set ps"
  by (induction ps rule: rejected.induct) auto

lemma Promise_all_rejected:
  assumes "Promise_all ps = Inl e"
  shows "\<exists>t. (t, Inl e) \<in> set ps"
proof (cases "rejected ps")
  case Nil
  with assms show ?thesis by (simp add: Promise_all_def)
next
  case (Cons r rs)
  with assms have e: "e = snd (arg_min_list fst (r # rs))" by (simp add: Promise_all_def)
  have "arg_min_list fst (r # rs) \<in> set (rejected ps)"
    using arg_min_list_in[of "r # rs" fst] Cons by simp
  with e have "(fst (arg_min_list fst (r # rs)), e) \<in> set (rejected ps)" by simp
  then show ?thesis by (blast dest: rejected_set)
qed

subsection \<open>The constructor\<close>

text \<open>
  C9. For a decision-maker whose action type is \<^verbatim>\<open>"multi"\<close>, constructing an executor
  whose tool list holds a return-direct tool throws: the constructor returns no executor
  but the error naming a return-direct tool of the list.
\<close>

theorem constructor_rejects_return_direct_for_multi:
  assumes "agentActionType (in_agent input) = ''multi''"
    and "t \<in> set (in_tools input)"
    and "returnDirect t"
  shows "\<exists>t'. t' \<in> set (in_tools input) \<and> returnDirect t' \<and>
           AgentExecutor_constructor input =
             Inl (Error (''Tool with return direct '' @ name t' @
                         '' not supported for multi-action agent.''))"
proof -
  from assms(2,3) have "find returnDirect (in_tools input) \<noteq> None"
    by (auto simp: find_None_iff)
  then obtain t' where f: "find returnDirect (in_tools input) = Some t'" by auto
  then have "t' \<in> set (in_tools input)" "returnDirect t'"
    by (auto simp: find_Some_iff)
  with f assms(1) show ?thesis
    by (auto simp: AgentExecutor_constructor_def Let_def)
qed

theorem constructor_rejects_return_direct_for_multi_witness:
  "AgentExecutor_constructor input_multi =
     Inl (Error ''Tool with return direct search not supported for multi-action agent.'')"
proof -
  have "agentActionType (in_agent input_multi) = ''multi''"
    by (simp add: input_multi_def example_defs)
  moreover have "echo_tool ''search'' True \<in> set (in_tools input_multi)"
    by (simp add: input_multi_def example_defs)
  moreover have "returnDirect (echo_tool ''search'' True)"
    by (simp add: example_defs)
  ultimately obtain t' where t': "t' \<in> set (in_tools input_multi)" "returnDirect t'"
    and e: "AgentExecutor_constructor input_multi =
              Inl (Error (''Tool with return direct '' @ name t' @
                          '' not supported for multi-action agent.''))"
    using constructor_rejects_return_direct_for_multi by blast
  from t' have "name t' = ''search''"
    by (auto simp: input_multi_def example_defs)
  with e show ?thesis by simp
qed

subsection \<open>The iterator starts afresh\<close>

lemma callNext_frame:
  "callNext it = Inr (it', v) \<Longrightarrow>
     agentExecutor it' = agentExecutor it \<and> inputs it' = inputs it"
  by (auto simp: callNext_def stop_def processNextStepOutput_def setFinalOutputs_def
        updateIterations_def Let_def
      split: option.splits if_splits sum.splits list.splits prod.splits)

text \<open>A run changes neither the executor nor the inputs of the iterator.\<close>

lemma streamIterator_loop_frame:
  assumes "streamIterator_loop it yields = Some d"
  shows "agentExecutor (drained_iterator d) = agentExecutor it \<and>
         inputs (drained_iterator d) = inputs it"
proof (induction it yields d rule: streamIterator_loop.raw_induct)
  case (1 loop it yields d)
  show ?case
  proof (cases "callNext it")
    case (Inl e)
    with 1(2) show ?thesis by auto
  next
    case (Inr p)
    obtain it' v where p: "p = (it', v)" by (cases p)
    from 1(2) Inr p have "loop it' (yields @ [v]) = Some d" by simp
    from 1(1)[OF this] callNext_frame[of it it' v] Inr p show ?thesis by simp
  qed
qed (rule assms)

text \<open>
  C10. \<^verbatim>\<open>streamIterator\<close> is the loop run from the reset iterator, whose iteration count
  is 0, whose history is empty and whose final outputs are unset. So what the iterator
  held in these three fields before has no effect on the run, and a drained run leaves an
  iterator whose next \<^verbatim>\<open>streamIterator\<close> yields and returns the same again.
\<close>

theorem streamIterator_starts_fresh:
  "iterations (reset it) = 0 \<and> intermediateSteps (reset it) = [] \<and>
   finalOutputs (reset it) = None \<and>
   streamIterator it = streamIterator_loop (reset it) [] \<and>
   streamIterator (it\<lparr>intermediateSteps := s, iterations := n, finalOutputs := f\<rparr>) =
     streamIterator it \<and>
   (streamIterator it = Some d \<longrightarrow> streamIterator (drained_iterator d) = Some d)"
proof -
  have "reset (it\<lparr>intermediateSteps := s, iterations := n, finalOutputs := f\<rparr>) = reset it"
    by (simp add: reset_def)
  moreover have "streamIterator (drained_iterator d) = Some d" if d: "streamIterator it = Some d"
  proof -
    from d have "streamIterator_loop (reset it) [] = Some d" by (simp add: streamIterator_def)
    from streamIterator_loop_frame[OF this]
    have "agentExecutor (drained_iterator d) = agentExecutor it"
      and "inputs (drained_iterator d) = inputs it"
      by (simp_all add: reset_def)
    then have "reset (drained_iterator d) = reset it"
      by (cases "drained_iterator d", cases it) (simp add: reset_def)
    with d show ?thesis by (simp add: streamIterator_def)
  qed
  ultimately show ?thesis by (simp add: streamIterator_def reset_def)
qed

theorem streamIterator_starts_fresh_witness:
  "streamIterator it_say_done =
     Some \<lparr>drained_iterator = it_say_done,
           drained_yields =
             [[''intermediateSteps'' \<mapsto> VSteps [\<lparr>action = say_action, observation = Str ''hello''\<rparr>]],
              [''output'' \<mapsto> VStr ''hello'']],
           drained_outcome = Inr [''output'' \<mapsto> VStr ''hello'']\<rparr>"
  (is "_ = Some ?d")
proof -
  have run: "streamIterator (new_iterator ex_say) = Some ?d"
    by (simp add: streamIterator_loop.simps iterator_defs example_defs call_defs
          it_say_done_def ex_say_def say_action_def)
  have "streamIterator (new_iterator ex_say) = Some ?d \<longrightarrow>
          streamIterator (drained_iterator ?d) = Some ?d"
    using streamIterator_starts_fresh[where it = "new_iterator ex_say" and d = ?d]
    by blast
  with run show ?thesis by simp
qed

subsection \<open>Errors of a tool\<close>

text \<open>
  Whatever the tool and its error, unless the error is a
  \<^verbatim>\<open>ToolInputParsingException\<close>: both step functions drop it and record \<^verbatim>\<open>""\<close>.
\<close>

lemma tool_error_dropped:
  assumes "call t (toolInput a) = Inl e"
    and "\<And>m. e \<noteq> ToolInputParsingException m"
  shows "resolve byName a = Own t \<Longrightarrow>
           call_action ex byName a = Inr \<lparr>action = a, observation = Str ''''\<rparr>"
    and "property nameToolMap (tool a) = Own t \<Longrightarrow>
           takeNextStep_action ex nameToolMap a = Inr \<lparr>action = a, observation = Str ''''\<rparr>"
  using assms by (cases e; simp add: call_action_def takeNextStep_action_def)+

text \<open>
  C1 (the code departs from it). A tool whose call throws an error that is not a
  \<^verbatim>\<open>ToolInputParsingException\<close> does not end the run: in \<^verbatim>\<open>_call\<close> and in
  \<^verbatim>\<open>_takeNextStep\<close> alike the error is dropped, the step gets the observation \<^verbatim>\<open>""\<close>,
  and the run goes on to the next plan, which here finishes with that observation.
\<close>

theorem tool_error_becomes_empty_observation:
  "call failing_tool (toolInput calc_action) = Inl (Error ''boom'') \<and>
   call_loop ex_failing (toolsByName ex_failing) Map.empty [] 0 =
     Some \<lparr>run_steps = [\<lparr>action = calc_action, observation = Str ''''\<rparr>],
           run_iterations = 1,
           run_outcome = Inr [''output'' \<mapsto> VStr '''']\<rparr> \<and>
   takeNextStep ex_failing (nameToToolMap (new_iterator ex_failing)) Map.empty [] =
     Inr (Inr [\<lparr>action = calc_action, observation = Str ''''\<rparr>])"
  by (simp add: call_loop.simps iterator_defs example_defs call_defs
        ex_failing_def failing_tool_def calc_action_def)

subsection \<open>Actions on tools that are not registered\<close>

text \<open>
  C3 (the code departs from it in \<^verbatim>\<open>_call\<close>). No tool of \<open>ex_unknown\<close> is named
  \<^verbatim>\<open>search\<close> in any letter case. \<^verbatim>\<open>_takeNextStep\<close> gives the action \<^verbatim>\<open>search\<close> the
  observation that lists the registered names. The callback of \<^verbatim>\<open>_call\<close> gives it an
  observation that lists no name, \<^verbatim>\<open>"search is not a valid tool, try another one."\<close>;
  neither throws, and the cycle of \<^verbatim>\<open>_call\<close> appends the step and does not end the run.
\<close>

theorem unknown_tool_message_in_call:
  "resolve (toolsByName ex_unknown) search_action = Absent \<and>
   takeNextStep_action ex_unknown (nameToToolMap (new_iterator ex_unknown)) search_action =
     Inr \<lparr>action = search_action,
          observation =
            Str ''search is not a valid tool, try another available tool: echo, lookup''\<rparr> \<and>
   call_action ex_unknown (toolsByName ex_unknown) search_action =
     Inr \<lparr>action = search_action,
          observation = Str ''search is not a valid tool, try another one.''\<rparr> \<and>
   call_cycle ex_unknown (toolsByName ex_unknown) Map.empty [] =
     ([\<lparr>action = search_action,
        observation = Str ''search is not a valid tool, try another one.''\<rparr>], None)"
  by (simp add: example_defs call_defs iterator_defs ex_unknown_def search_action_def)

subsection \<open>Letter case of tool names\<close>

text \<open>
  C4 (the code departs from it). \<^verbatim>\<open>_call\<close> resolves the action \<^verbatim>\<open>echo\<close> to the tool
  registered as \<^verbatim>\<open>Echo\<close>. The iterator does not: \<^verbatim>\<open>nameToToolMap\<close> is keyed by the
  names as written and \<^verbatim>\<open>_takeNextStep\<close> looks the name of the action up as written, so
  the same action gets the observation of an unregistered tool. And \<^verbatim>\<open>_getToolReturn\<close>
  keys its table by lower-cased names but looks the name of the action up as written, so
  the action \<^verbatim>\<open>Search\<close> on the return-direct tool \<^verbatim>\<open>Search\<close> is not found there.
\<close>

theorem iterator_lookup_is_case_sensitive:
  "call_action ex_case (toolsByName ex_case) echo_action =
     Inr \<lparr>action = echo_action, observation = Str ''hello''\<rparr> \<and>
   takeNextStep_action ex_case (nameToToolMap (new_iterator ex_case)) echo_action =
     Inr \<lparr>action = echo_action,
          observation = Str ''echo is not a valid tool, try another available tool: Echo''\<rparr> \<and>
   getToolReturn ex_direct \<lparr>action = Search_action, observation = Str ''weather''\<rparr> = None"
  by (simp add: example_defs call_defs iterator_defs
        ex_case_def echo_action_def ex_direct_def Search_action_def)

subsection \<open>Return-direct tools\<close>

text \<open>
  In \<^verbatim>\<open>_call\<close>, a cycle whose one action is answered by a return-direct tool ends the
  run with that observation under the first output key.
\<close>

lemma return_direct_ends_call:
  assumes "plan_catch ex steps inps = Inr (Action a)"
    and "tool a \<noteq> ''_Exception''"
    and "property byName (toLowerCase (tool a)) = Own t"
    and "returnDirect t"
    and "call t (toolInput a) = Inr obs"
  shows "call_cycle ex byName inps steps =
           (steps @ [\<lparr>action = a, observation = Str obs\<rparr>],
            Some (Inr (getOutput ex (steps @ [\<lparr>action = a, observation = Str obs\<rparr>])
                    \<lparr>returnValues = [returnValues_0 (agent ex) \<mapsto> VStr obs],
                     finish_log = ''''\<rparr>)))"
  using assms
  by (simp add: call_cycle_def call_action_def resolve_def settles_def Promise_all_def Let_def)

text \<open>
  C6 (the code departs from it in the iterator). The return-direct tool \<^verbatim>\<open>Search\<close> is
  called with success by the action \<^verbatim>\<open>Search\<close>. \<^verbatim>\<open>_call\<close> ends the run in that cycle
  with the observation as its output. The drained iterator plans again, calls the tool a
  second time, and ends after two iterations with the stopped response.
\<close>

theorem return_direct_missed_by_iterator:
  "call_loop ex_direct (toolsByName ex_direct) Map.empty [] 0 =
     Some \<lparr>run_steps = [\<lparr>action = Search_action, observation = Str ''weather''\<rparr>],
           run_iterations = 0,
           run_outcome = Inr [''output'' \<mapsto> VStr ''weather'']\<rparr> \<and>
   streamIterator (new_iterator ex_direct) =
     Some \<lparr>drained_iterator =
             \<lparr>agentExecutor = ex_direct, inputs = Map.empty,
              finalOutputs =
                Some [''output'' \<mapsto> VStr ''Agent stopped due to iteration limit or time limit.''],
              intermediateSteps =
                [\<lparr>action = Search_action, observation = Str ''weather''\<rparr>,
                 \<lparr>action = Search_action, observation = Str ''weather''\<rparr>],
              iterations = 2\<rparr>,
           drained_yields =
             [[''intermediateSteps'' \<mapsto> VSteps [\<lparr>action = Search_action, observation = Str ''weather''\<rparr>]],
              [''intermediateSteps'' \<mapsto> VSteps [\<lparr>action = Search_action, observation = Str ''weather''\<rparr>]],
              [''output'' \<mapsto> VStr ''Agent stopped due to iteration limit or time limit.'']],
           drained_outcome =
             Inr [''output'' \<mapsto> VStr ''Agent stopped due to iteration limit or time limit.'']\<rparr>"
  by (simp add: call_loop.simps streamIterator_loop.simps example_defs call_defs iterator_defs
        ex_direct_def Search_action_def)

subsection \<open>Recovered output-parsing errors\<close>

text \<open>
  In \<^verbatim>\<open>_call\<close>, under a fixed string \<open>S\<close>, a cycle whose plan throws an output-parsing
  error appends one step of the exception tool whose observation is \<open>S\<close>.
\<close>

lemma recovered_observation_in_call:
  assumes "handleParsingErrors ex = HString S"
    and "plan (agent ex) steps inps = Inl (OutputParserException m s ob l)"
  shows "\<exists>res. call_cycle ex byName inps steps =
           (steps @ [\<lparr>action = \<lparr>tool = ''_Exception'', toolInput = S, log = m\<rparr>,
                       observation = Str S\<rparr>], res)"
  using assms
  by (simp add: call_cycle_def plan_catch_def call_action_def resolve_def settles_def
        Promise_all_def ExceptionTool_def Let_def)

text \<open>With an iteration bound, \<^verbatim>\<open>_call\<close> returns or throws: its loop ends.\<close>

lemma call_loop_terminates:
  assumes "maxIterations ex = Some N"
  shows "\<exists>r. call_loop ex byName inps steps n = Some r"
proof (induction "nat (N - int n)" arbitrary: n steps)
  case 0
  with assms have "\<not> shouldContinue ex n" by (simp add: shouldContinue_def)
  then show ?case by (subst call_loop.simps) simp
next
  case (Suc k)
  then have sc: "shouldContinue ex n" using assms by (simp add: shouldContinue_def)
  obtain steps' res where c: "call_cycle ex byName inps steps = (steps', res)"
    by (cases "call_cycle ex byName inps steps")
  show ?case
  proof (cases res)
    case None
    from Suc(2) have "k = nat (N - int (Suc n))" by simp
    from Suc(1)[OF this, of steps'] sc c None show ?thesis
      by (subst call_loop.simps) simp
  next
    case (Some outcome)
    with sc c show ?thesis by (subst call_loop.simps) simp
  qed
qed

text \<open>
  C7 (the code departs from it in the iterator). Under \<^verbatim>\<open>handleParsingErrors = "use X"\<close>
  and a plan that always throws an output-parsing error, a cycle of \<^verbatim>\<open>_call\<close> records
  the observation \<^verbatim>\<open>"use X"\<close>. \<^verbatim>\<open>_takeNextStep\<close> builds the same action on
  \<^verbatim>\<open>"_Exception"\<close>, then looks that name up in the tool table like any other, does not
  find it, and records the observation of an unregistered tool.
\<close>

theorem recovered_observation_lost_by_iterator:
  "call_cycle ex_unparsable (toolsByName ex_unparsable) Map.empty [] =
     ([\<lparr>action = Exception_action, observation = Str ''use X''\<rparr>], None) \<and>
   takeNextStep ex_unparsable (nameToToolMap (new_iterator ex_unparsable)) Map.empty [] =
     Inr (Inr [\<lparr>action = Exception_action,
                observation = Str ''_Exception is not a valid tool, try another available tool: ''\<rparr>])"
  by (simp add: example_defs call_defs iterator_defs ex_unparsable_def Exception_action_def)

subsection \<open>The continuation predicate\<close>

text \<open>The drained loop, unfolded by one pull.\<close>

lemma streamIterator_loop_finished:
  "finalOutputs it = Some outputs \<Longrightarrow>
     streamIterator_loop it ys =
       Some \<lparr>drained_iterator = it, drained_yields = ys, drained_outcome = Inr outputs\<rparr>"
  by (subst streamIterator_loop.simps) (simp add: callNext_def)

lemma streamIterator_loop_error:
  "finalOutputs it = None \<Longrightarrow> callNext it = Inl e \<Longrightarrow>
     streamIterator_loop it ys =
       Some \<lparr>drained_iterator = it, drained_yields = ys, drained_outcome = Inl e\<rparr>"
  by (subst streamIterator_loop.simps) simp

lemma streamIterator_loop_next:
  "callNext it = Inr (it', y) \<Longrightarrow> streamIterator_loop it ys = streamIterator_loop it' (ys @ [y])"
  by (subst streamIterator_loop.simps) simp

text \<open>
  C8 as stated fails: with a budget of 1000 and 5000 elapsed the predicate of the
  specification stops the run, while \<^verbatim>\<open>shouldContinue\<close>, which reads no clock and no
  budget, continues.
\<close>

theorem time_budget_counterexample:
  "shouldContinue ex_looping 0 \<and>
   \<not> continuation_predicate_spec (maxIterations ex_looping) (Some 1000) 0 5000"
  by (simp add: example_defs shouldContinue_def continuation_predicate_spec_def ex_looping_def)

text \<open>
  C8, amended. The continuation predicate reads the iteration count alone: it is the
  predicate of the specification with no time budget configured, whatever time has
  elapsed. When it is false the run ends by the stopped response of the decision-maker
  in both modes. \<^verbatim>\<open>_call\<close> leaves its loop and returns the output built from the
  finish that \<^verbatim>\<open>returnStoppedResponse\<close> gives for the early-stopping method, the
  history and the inputs, or throws its error. A drained iterator that has not finished
  throws that error; or it yields \<^verbatim>\<open>_return\<close> of that finish, stores it through
  \<^verbatim>\<open>prepOutputs\<close> as its final outputs, and returns them.
\<close>

theorem continuation_reads_iterations_only:
  "shouldContinue ex n = continuation_predicate_spec (maxIterations ex) None n elapsed \<and>
   (\<not> shouldContinue ex n \<longrightarrow>
      call_loop ex byName inps steps n =
        Some \<lparr>run_steps = steps, run_iterations = n,
              run_outcome =
                (case returnStoppedResponse (agent ex) (earlyStoppingMethod ex) steps inps of
                   Inl e \<Rightarrow> Inl e
                 | Inr finish \<Rightarrow> Inr (getOutput ex steps finish))\<rparr>) \<and>
   (finalOutputs it = None \<and> \<not> shouldContinue (agentExecutor it) (iterations it) \<longrightarrow>
      streamIterator_loop it ys =
        Some (case returnStoppedResponse (agent (agentExecutor it))
                     (earlyStoppingMethod (agentExecutor it)) (intermediateSteps it) (inputs it) of
                Inl e \<Rightarrow> \<lparr>drained_iterator = it, drained_yields = ys, drained_outcome = Inl e\<rparr>
              | Inr finish \<Rightarrow>
                  \<lparr>drained_iterator =
                     it\<lparr>finalOutputs :=
                          Some (prepOutputs (agentExecutor it) (inputs it)
                                  (AgentExecutor_return (agentExecutor it) finish
                                     (intermediateSteps it)) True)\<rparr>,
                   drained_yields =
                     ys @ [AgentExecutor_return (agentExecutor it) finish (intermediateSteps it)],
                   drained_outcome =
                     Inr (prepOutputs (agentExecutor it) (inputs it)
                            (AgentExecutor_return (agentExecutor it) finish
                               (intermediateSteps it)) True)\<rparr>))"
proof (intro conjI impI)
  show "shouldContinue ex n = continuation_predicate_spec (maxIterations ex) None n elapsed"
    by (simp add: shouldContinue_def continuation_predicate_spec_def)
next
  assume "\<not> shouldContinue ex n"
  then show "call_loop ex byName inps steps n =
        Some \<lparr>run_steps = steps, run_iterations = n,
              run_outcome =
                (case returnStoppedResponse (agent ex) (earlyStoppingMethod ex) steps inps of
                   Inl e \<Rightarrow> Inl e
                 | Inr finish \<Rightarrow> Inr (getOutput ex steps finish))\<rparr>"
    by (subst call_loop.simps) (simp add: call_stopped_def)
next
  let ?ex = "agentExecutor it"
  let ?r = "returnStoppedResponse (agent ?ex) (earlyStoppingMethod ?ex) (intermediateSteps it)
              (inputs it)"
  assume a: "finalOutputs it = None \<and> \<not> shouldContinue ?ex (iterations it)"
  then have cn: "callNext it = stop it" by (simp add: callNext_def)
  show "streamIterator_loop it ys =
        Some (case ?r of
                Inl e \<Rightarrow> \<lparr>drained_iterator = it, drained_yields = ys, drained_outcome = Inl e\<rparr>
              | Inr finish \<Rightarrow>
                  \<lparr>drained_iterator =
                     it\<lparr>finalOutputs :=
                          Some (prepOutputs ?ex (inputs it)
                                  (AgentExecutor_return ?ex finish (intermediateSteps it)) True)\<rparr>,
                   drained_yields =
                     ys @ [AgentExecutor_return ?ex finish (intermediateSteps it)],
                   drained_outcome =
                     Inr (prepOutputs ?ex (inputs it)
                            (AgentExecutor_return ?ex finish (intermediateSteps it)) True)\<rparr>)"
  proof (cases ?r)
    case (Inl e)
    with cn have "callNext it = Inl e" by (simp add: stop_def)
    from streamIterator_loop_error[OF _ this, of ys] a Inl show ?thesis by simp
  next
    case (Inr finish)
    let ?out = "AgentExecutor_return ?ex finish (intermediateSteps it)"
    let ?it' = "it\<lparr>finalOutputs := Some (prepOutputs ?ex (inputs it) ?out True)\<rparr>"
    from cn Inr have "callNext it = Inr (?it', ?out)"
      by (simp add: stop_def setFinalOutputs_def Let_def)
    from streamIterator_loop_next[OF this, of ys]
      streamIterator_loop_finished[of ?it' "prepOutputs ?ex (inputs it) ?out True" "ys @ [?out]"]
      Inr
    show ?thesis by simp
  qed
qed

theorem continuation_reads_iterations_only_witness:
  "call_loop ex_looping (toolsByName ex_looping) Map.empty [] 2 =
     Some \<lparr>run_steps = [], run_iterations = 2,
           run_outcome =
             Inr [''output'' \<mapsto> VStr ''Agent stopped due to iteration limit or time limit.'']\<rparr> \<and>
   streamIterator_loop (iterator_at ex_looping Map.empty [] 2) [] =
     Some \<lparr>drained_iterator =
             \<lparr>agentExecutor = ex_looping, inputs = Map.empty,
              finalOutputs =
                Some [''output'' \<mapsto> VStr ''Agent stopped due to iteration limit or time limit.''],
              intermediateSteps = [], iterations = 2\<rparr>,
           drained_yields =
             [[''output'' \<mapsto> VStr ''Agent stopped due to iteration limit or time limit.'']],
           drained_outcome =
             Inr [''output'' \<mapsto> VStr ''Agent stopped due to iteration limit or time limit.'']\<rparr>"
  using continuation_reads_iterations_only[of ex_looping 2 0 "toolsByName ex_looping" Map.empty "[]"
      "iterator_at ex_looping Map.empty [] 2" "[]"]
  by (simp add: example_defs ex_looping_def iterator_at_def shouldContinue_def getOutput_def
        AgentExecutor_return_def continuation_predicate_spec_def
        AgentExecutor_returnStoppedResponse_def)

subsection \<open>The iteration bound\<close>

lemma tool_input_catch_recovers:
  "handleParsingErrors ex \<noteq> HBool False \<Longrightarrow>
     \<exists>obs. tool_input_catch ex a m = Inr \<lparr>action = a, observation = obs\<rparr>"
  by (cases "handleParsingErrors ex")
     (auto simp: tool_input_catch_def ExceptionTool_def Let_def split: bool.splits)

text \<open>
  The callback of \<^verbatim>\<open>_call\<close> throws only a \<^verbatim>\<open>ToolInputParsingException\<close> of a tool, and
  only when \<^verbatim>\<open>handleParsingErrors\<close> is \<^verbatim>\<open>false\<close>.
\<close>

lemma call_action_step:
  assumes "\<And>t m. resolve byName a = Own t \<Longrightarrow>
             call t (toolInput a) = Inl (ToolInputParsingException m) \<Longrightarrow>
             handleParsingErrors ex \<noteq> HBool False"
  shows "\<exists>obs. call_action ex byName a = Inr \<lparr>action = a, observation = obs\<rparr>"
proof (cases "resolve byName a")
  case Absent
  then show ?thesis by (simp add: call_action_def)
next
  case (Inherited k)
  then show ?thesis by (cases "prototype_call k (toolInput a)") (simp_all add: call_action_def)
next
  case (Own t)
  show ?thesis
  proof (cases "call t (toolInput a)")
    case (Inr obs)
    with Own show ?thesis by (simp add: call_action_def)
  next
    case (Inl e)
    show ?thesis
    proof (cases e)
      case (ToolInputParsingException m)
      with assms[OF Own] Inl have "handleParsingErrors ex \<noteq> HBool False" by simp
      from tool_input_catch_recovers[OF this, of a m] Own Inl ToolInputParsingException
      show ?thesis by (simp add: call_action_def)
    qed (use Own Inl in \<open>simp_all add: call_action_def\<close>)
  qed
qed

text \<open>
  A cycle of \<^verbatim>\<open>_call\<close> that plans at least one action, the last of them not on a
  return-direct tool, appends one step for each action and does not end the run.
\<close>

lemma call_cycle_continues:
  assumes pc: "plan_catch ex steps inps = Inr out"
    and acts: "actions_of out \<noteq> []"
    and no_direct: "\<And>t. property byName (toLowerCase (tool (last (actions_of out)))) = Own t \<Longrightarrow>
        \<not> returnDirect t"
    and recover: "\<And>a t m. a \<in> set (actions_of out) \<Longrightarrow> resolve byName a = Own t \<Longrightarrow>
        call t (toolInput a) = Inl (ToolInputParsingException m) \<Longrightarrow>
        handleParsingErrors ex \<noteq> HBool False"
  shows "\<exists>new. map action new = actions_of out \<and>
           call_cycle ex byName inps steps = (steps @ new, None)"
proof -
  let ?as = "actions_of out"
  define g where "g a = \<lparr>action = a, observation = observation (projr (call_action ex byName a))\<rparr>"
    for a
  have step: "call_action ex byName a = Inr (g a)" if "a \<in> set ?as" for a
  proof -
    from call_action_step[of byName a ex] recover[OF that]
    obtain obs where "call_action ex byName a = Inr \<lparr>action = a, observation = obs\<rparr>" by blast
    then show ?thesis by (simp add: g_def)
  qed
  have all: "Promise_all (map (\<lambda>a. (settles byName a, call_action ex byName a)) ?as) =
               Inr (map g ?as)"
    using step by (rule Promise_all_fulfilled)
  have acts': "map action (map g ?as) = ?as" by (simp add: g_def comp_def)
  from acts have ne: "map g ?as \<noteq> []" by simp
  from acts have "action (last (map g ?as)) = last ?as" by (simp add: last_map g_def)
  with no_direct ne
  have nd: "\<not> (case property byName (toLowerCase (tool (action (last (steps @ map g ?as))))) of
                 Own t \<Rightarrow> returnDirect t | Inherited k \<Rightarrow> False | Absent \<Rightarrow> False)"
    by (auto split: property.splits)
  from acts have nofin: "out \<noteq> Finish f" for f by auto
  from pc all ne nofin nd
  have "call_cycle ex byName inps steps = (steps @ map g ?as, None)"
    by (cases out) (simp_all add: call_cycle_def Let_def)
  with acts' show ?thesis by blast
qed

text \<open>
  When no cycle ends the run, the loop of \<^verbatim>\<open>_call\<close> leaves with the iteration count at
  the bound, one batch of steps appended by each cycle, and returns the stopped response.
\<close>

lemma call_loop_runs_to_bound:
  assumes bound: "maxIterations ex = Some N"
    and cyc: "\<And>steps. \<exists>new. new \<noteq> [] \<and> call_cycle ex byName inps steps = (steps @ new, None)"
  shows "int n \<le> N \<Longrightarrow>
         \<exists>batches. length batches = nat N - n \<and> [] \<notin> set batches \<and>
           call_loop ex byName inps steps n =
             Some \<lparr>run_steps = steps @ concat batches, run_iterations = nat N,
                   run_outcome = call_stopped ex inps (steps @ concat batches)\<rparr>"
proof (induction "nat N - n" arbitrary: n steps)
  case 0
  then have n: "n = nat N" and "N \<le> int n" by linarith+
  with bound have "\<not> shouldContinue ex n" by (simp add: shouldContinue_def)
  then show ?case
    using n by (subst call_loop.simps) (auto intro: exI[of _ "[]"])
next
  case (Suc k)
  then have lt: "int n < N" by linarith
  with bound have sc: "shouldContinue ex n" by (simp add: shouldContinue_def)
  from cyc[of steps] obtain new where new: "new \<noteq> []"
    and c: "call_cycle ex byName inps steps = (steps @ new, None)" by blast
  from Suc(2) lt have "k = nat N - Suc n" "int (Suc n) \<le> N" by linarith+
  from Suc(1)[OF this, of "steps @ new"] obtain batches where
    len: "length batches = nat N - Suc n" and ne: "[] \<notin> set batches" and
    r: "call_loop ex byName inps (steps @ new) (Suc n) =
         Some \<lparr>run_steps = (steps @ new) @ concat batches, run_iterations = nat N,
               run_outcome = call_stopped ex inps ((steps @ new) @ concat batches)\<rparr>"
    by blast
  have "call_loop ex byName inps steps n = call_loop ex byName inps (steps @ new) (Suc n)"
    using sc c by (subst call_loop.simps) simp
  with r len ne new Suc(2) show ?case
    by (intro exI[of _ "new # batches"]) auto
qed

text \<open>
  C5 as stated fails. The plan of \<open>ex_own_stop\<close> never finishes and \<^verbatim>\<open>maxIterations\<close>
  is 2: \<^verbatim>\<open>_call\<close> stops after two cycles with the finish of the decision-maker's own
  \<^verbatim>\<open>returnStoppedResponse\<close>, whose output is not the message of
  \<^verbatim>\<open>_returnStoppedResponse\<close>. Nor does a run reach the bound when a plan that never
  finishes is an empty batch (reading the last step of an empty history throws), when
  it throws an error that is not recovered, or when a tool throws a
  \<^verbatim>\<open>ToolInputParsingException\<close> that is not recovered.
\<close>

theorem forced_stop_message_counterexample:
  "maxIterations ex_own_stop = Some 2 \<and>
   call_loop ex_own_stop (toolsByName ex_own_stop) Map.empty [] 0 =
     Some \<lparr>run_steps = [\<lparr>action = say_action, observation = Str ''hello''\<rparr>,
                        \<lparr>action = say_action, observation = Str ''hello''\<rparr>],
           run_iterations = 2,
           run_outcome = Inr [''output'' \<mapsto> VStr ''Agent stopped due to max iterations.'']\<rparr> \<and>
   [''output'' \<mapsto> VStr ''Agent stopped due to max iterations.''] ''output'' \<noteq>
     Some (VStr ''Agent stopped due to iteration limit or time limit.'') \<and>
   AgentExecutor_call ex_empty_plan Map.empty = Some (Inl TypeError) \<and>
   AgentExecutor_call ex_plan_fails Map.empty = Some (Inl (Error ''timeout'')) \<and>
   AgentExecutor_call ex_bad_input Map.empty =
     Some (Inl (ToolInputParsingException ''bad input''))"
  by (simp add: AgentExecutor_call_def call_loop.simps example_defs call_defs ex_own_stop_def
        own_stopped_response_def say_action_def ex_empty_plan_def ex_plan_fails_def
        ex_bad_input_def strict_tool_def)

text \<open>A plan that never finishes and never fails for good gives at least one action.\<close>

lemma plan_catch_actions:
  assumes "(\<exists>a. plan (agent ex) steps inps = Inr (Action a)) \<or>
           (\<exists>a as. plan (agent ex) steps inps = Inr (Actions (a # as))) \<or>
           (\<exists>m s ob l. plan (agent ex) steps inps = Inl (OutputParserException m s ob l) \<and>
              handleParsingErrors ex \<noteq> HBool False)"
  shows "\<exists>out. plan_catch ex steps inps = Inr out \<and> actions_of out \<noteq> []"
  using assms
  by (cases "handleParsingErrors ex")
     (auto simp: plan_catch_def split: bool.splits)

text \<open>
  C5, amended. Let \<^verbatim>\<open>maxIterations\<close> be \<open>N > 0\<close>; let every plan return one action or
  a non-empty batch of actions, or throw an output-parsing error that
  \<^verbatim>\<open>handleParsingErrors\<close> recovers; let the last action of no cycle resolve to a
  return-direct tool; and let no tool throw a \<^verbatim>\<open>ToolInputParsingException\<close> that
  \<^verbatim>\<open>handleParsingErrors\<close> does not recover. Then \<^verbatim>\<open>_call\<close> runs exactly \<open>N\<close> cycles,
  each appending a non-empty batch of steps, leaves its loop with the iteration count at
  \<open>N\<close>, and ends with the stopped response of the decision-maker: the output built from
  the finish that \<^verbatim>\<open>returnStoppedResponse\<close> gives for the early-stopping method, the
  history and the inputs, or the error it throws.
\<close>

theorem stopped_response_after_maxIterations:
  assumes bound: "maxIterations ex = Some N" and pos: "0 < N"
    and plans: "\<And>steps.
        (\<exists>a. plan (agent ex) steps inps = Inr (Action a)) \<or>
        (\<exists>a as. plan (agent ex) steps inps = Inr (Actions (a # as))) \<or>
        (\<exists>m s ob l. plan (agent ex) steps inps = Inl (OutputParserException m s ob l) \<and>
           handleParsingErrors ex \<noteq> HBool False)"
    and no_direct: "\<And>steps out t. plan_catch ex steps inps = Inr out \<Longrightarrow>
        property (toolsByName ex) (toLowerCase (tool (last (actions_of out)))) = Own t \<Longrightarrow>
        \<not> returnDirect t"
    and recover: "\<And>steps out a t m. plan_catch ex steps inps = Inr out \<Longrightarrow>
        a \<in> set (actions_of out) \<Longrightarrow> resolve (toolsByName ex) a = Own t \<Longrightarrow>
        call t (toolInput a) = Inl (ToolInputParsingException m) \<Longrightarrow>
        handleParsingErrors ex \<noteq> HBool False"
  shows "\<exists>batches.
           length batches = nat N \<and> [] \<notin> set batches \<and>
           call_loop ex (toolsByName ex) inps [] 0 =
             Some \<lparr>run_steps = concat batches, run_iterations = nat N,
                   run_outcome =
                     (case returnStoppedResponse (agent ex) (earlyStoppingMethod ex)
                             (concat batches) inps of
                        Inl e \<Rightarrow> Inl e
                      | Inr finish \<Rightarrow> Inr (getOutput ex (concat batches) finish))\<rparr> \<and>
           AgentExecutor_call ex inps =
             Some (case returnStoppedResponse (agent ex) (earlyStoppingMethod ex)
                          (concat batches) inps of
                     Inl e \<Rightarrow> Inl e
                   | Inr finish \<Rightarrow> Inr (getOutput ex (concat batches) finish))"
proof -
  have cyc: "\<exists>new. new \<noteq> [] \<and> call_cycle ex (toolsByName ex) inps steps = (steps @ new, None)"
    for steps
  proof -
    from plan_catch_actions[OF plans[of steps]] obtain out where
      pc: "plan_catch ex steps inps = Inr out" and acts: "actions_of out \<noteq> []"
      by blast
    have "\<exists>new. map action new = actions_of out \<and>
            call_cycle ex (toolsByName ex) inps steps = (steps @ new, None)"
    proof (rule call_cycle_continues[OF pc acts])
      show "\<not> returnDirect t"
        if "property (toolsByName ex) (toLowerCase (tool (last (actions_of out)))) = Own t" for t
        using no_direct[OF pc that] .
      show "handleParsingErrors ex \<noteq> HBool False"
        if "a \<in> set (actions_of out)" "resolve (toolsByName ex) a = Own t"
          "call t (toolInput a) = Inl (ToolInputParsingException m)" for a t m
        using recover[OF pc that] .
    qed
    then obtain new where "map action new = actions_of out"
      and "call_cycle ex (toolsByName ex) inps steps = (steps @ new, None)"
      by blast
    with acts show ?thesis by (intro exI[of _ new]) auto
  qed
  from pos have "int 0 \<le> N" by simp
  from call_loop_runs_to_bound[OF bound cyc this, of "[]"] obtain batches where
    "length batches = nat N" "[] \<notin> set batches"
    "call_loop ex (toolsByName ex) inps [] 0 =
       Some \<lparr>run_steps = concat batches, run_iterations = nat N,
             run_outcome = call_stopped ex inps (concat batches)\<rparr>"
    by auto
  then show ?thesis
    by (intro exI[of _ batches]) (simp add: AgentExecutor_call_def call_stopped_def)
qed

theorem stopped_response_after_maxIterations_witness:
  "\<exists>batches.
     length batches = 2 \<and> [] \<notin> set batches \<and>
     concat batches = [\<lparr>action = say_action, observation = Str ''hello''\<rparr>,
                       \<lparr>action = say_action, observation = Str ''hello''\<rparr>] \<and>
     call_loop ex_own_stop (toolsByName ex_own_stop) Map.empty [] 0 =
       Some \<lparr>run_steps = concat batches, run_iterations = 2,
             run_outcome = Inr [''output'' \<mapsto> VStr ''Agent stopped due to max iterations.'']\<rparr> \<and>
     AgentExecutor_call ex_own_stop Map.empty =
       Some (Inr [''output'' \<mapsto> VStr ''Agent stopped due to max iterations.''])"
proof -
  let ?ex = ex_own_stop
  have pc: "plan_catch ?ex steps Map.empty = Inr (Action say_action)" for steps
    by (simp add: plan_catch_def example_defs ex_own_stop_def)
  have tool: "resolve (toolsByName ?ex) say_action = Own (echo_tool ''say'' False)"
    "property (toolsByName ?ex) (toLowerCase (tool say_action)) = Own (echo_tool ''say'' False)"
    by (simp_all add: example_defs call_defs ex_own_stop_def say_action_def)
  have "\<exists>batches.
           length batches = nat 2 \<and> [] \<notin> set batches \<and>
           call_loop ?ex (toolsByName ?ex) Map.empty [] 0 =
             Some \<lparr>run_steps = concat batches, run_iterations = nat 2,
                   run_outcome =
                     (case returnStoppedResponse (agent ?ex) (earlyStoppingMethod ?ex)
                             (concat batches) Map.empty of
                        Inl e \<Rightarrow> Inl e
                      | Inr finish \<Rightarrow> Inr (getOutput ?ex (concat batches) finish))\<rparr> \<and>
           AgentExecutor_call ?ex Map.empty =
             Some (case returnStoppedResponse (agent ?ex) (earlyStoppingMethod ?ex)
                          (concat batches) Map.empty of
                     Inl e \<Rightarrow> Inl e
                   | Inr finish \<Rightarrow> Inr (getOutput ?ex (concat batches) finish))"
  proof (rule stopped_response_after_maxIterations)
    show "maxIterations ?ex = Some 2" "(0::int) < 2"
      by (simp_all add: example_defs ex_own_stop_def)
    show "(\<exists>a. plan (agent ?ex) steps Map.empty = Inr (Action a)) \<or>
          (\<exists>a as. plan (agent ?ex) steps Map.empty = Inr (Actions (a # as))) \<or>
          (\<exists>m s ob l. plan (agent ?ex) steps Map.empty = Inl (OutputParserException m s ob l) \<and>
             handleParsingErrors ?ex \<noteq> HBool False)" for steps
      by (simp add: example_defs ex_own_stop_def)
    show "\<not> returnDirect t"
      if "plan_catch ?ex steps Map.empty = Inr out"
        "property (toolsByName ?ex) (toLowerCase (tool (last (actions_of out)))) = Own t"
      for steps out t
      using that tool(2) by (auto simp: pc echo_tool_def)
    show "handleParsingErrors ?ex \<noteq> HBool False"
      if "plan_catch ?ex steps Map.empty = Inr out" "a \<in> set (actions_of out)"
        "resolve (toolsByName ?ex) a = Own t"
        "call t (toolInput a) = Inl (ToolInputParsingException m)"
      for steps out a t m
      using that tool(1) by (auto simp: pc echo_tool_def)
  qed
  then obtain batches where b: "length batches = 2" "[] \<notin> set batches"
    and run: "call_loop ?ex (toolsByName ?ex) Map.empty [] 0 =
             Some \<lparr>run_steps = concat batches, run_iterations = 2,
                   run_outcome =
                     (case returnStoppedResponse (agent ?ex) (earlyStoppingMethod ?ex)
                             (concat batches) Map.empty of
                        Inl e \<Rightarrow> Inl e
                      | Inr finish \<Rightarrow> Inr (getOutput ?ex (concat batches) finish))\<rparr>"
    and res: "AgentExecutor_call ?ex Map.empty =
             Some (case returnStoppedResponse (agent ?ex) (earlyStoppingMethod ?ex)
                          (concat batches) Map.empty of
                     Inl e \<Rightarrow> Inl e
                   | Inr finish \<Rightarrow> Inr (getOutput ?ex (concat batches) finish))"
    by auto
  have stop: "(case returnStoppedResponse (agent ?ex) (earlyStoppingMethod ?ex) steps Map.empty of
                 Inl e \<Rightarrow> Inl e
               | Inr finish \<Rightarrow> Inr (getOutput ?ex steps finish)) =
              Inr [''output'' \<mapsto> VStr ''Agent stopped due to max iterations.'']" for steps
    by (simp add: example_defs ex_own_stop_def own_stopped_response_def getOutput_def)
  have "call_loop ?ex (toolsByName ?ex) Map.empty [] 0 =
     Some \<lparr>run_steps = [\<lparr>action = say_action, observation = Str ''hello''\<rparr>,
                        \<lparr>action = say_action, observation = Str ''hello''\<rparr>],
           run_iterations = 2,
           run_outcome = Inr [''output'' \<mapsto> VStr ''Agent stopped due to max iterations.'']\<rparr>"
    by (simp add: call_loop.simps example_defs call_defs ex_own_stop_def
          own_stopped_response_def say_action_def)
  with run[unfolded stop]
  have "concat batches = [\<lparr>action = say_action, observation = Str ''hello''\<rparr>,
                       \<lparr>action = say_action, observation = Str ''hello''\<rparr>]"
    by simp
  with b run[unfolded stop] res[unfolded stop] show ?thesis
    by (intro exI[of _ batches]) simp
qed

subsection \<open>The driver and the drained iterator\<close>

text \<open>
  C2 (the code departs from it). The action \<^verbatim>\<open>search\<close> names no registered tool; the
  callback of \<^verbatim>\<open>_call\<close> and \<^verbatim>\<open>_takeNextStep\<close> record different observations for it,
  the plan finishes with the observation it was given, and so \<^verbatim>\<open>_call\<close> and the
  drained \<^verbatim>\<open>streamIterator\<close> return different results for the same executor and inputs.
\<close>

theorem driver_and_drained_iterator_diverge:
  "AgentExecutor_call ex_unknown Map.empty =
     Some (Inr [''output'' \<mapsto> VStr ''search is not a valid tool, try another one.'']) \<and>
   drain ex_unknown Map.empty =
     Some (Inr [''output'' \<mapsto>
                VStr ''search is not a valid tool, try another available tool: echo, lookup'']) \<and>
   AgentExecutor_call ex_unknown Map.empty \<noteq> drain ex_unknown Map.empty"
proof -
  have a: "AgentExecutor_call ex_unknown Map.empty =
     Some (Inr [''output'' \<mapsto> VStr ''search is not a valid tool, try another one.''])"
    by (simp add: AgentExecutor_call_def call_loop.simps example_defs call_defs
          ex_unknown_def search_action_def)
  have b: "drain ex_unknown Map.empty =
     Some (Inr [''output'' \<mapsto>
                VStr ''search is not a valid tool, try another available tool: echo, lookup''])"
    by (simp add: drain_def streamIterator_loop.simps iterator_defs example_defs call_defs
          ex_unknown_def search_action_def)
  have "[''output'' \<mapsto> VStr ''search is not a valid tool, try another one.''] \<noteq>
        [''output'' \<mapsto>
           VStr ''search is not a valid tool, try another available tool: echo, lookup'']"
  proof
    assume "[''output'' \<mapsto> VStr ''search is not a valid tool, try another one.''] =
        [''output'' \<mapsto>
           VStr ''search is not a valid tool, try another available tool: echo, lookup'']"
    then have "[''output'' \<mapsto> VStr ''search is not a valid tool, try another one.''] ''output'' =
        [''output'' \<mapsto>
           VStr ''search is not a valid tool, try another available tool: echo, lookup''] ''output''"
      by (rule arg_cong)
    then show False by simp
  qed
  with a b show ?thesis by simp
qed

end
